theory Spec2Isabelle
  imports Complex_Main
begin

section \<open>Results and errors\<close>

text \<open>
  The model of \<^verbatim>\<open>elfi/methods/bo/iwvi/models.py\<close>. Every exception the Python can raise is
  a value: \<open>ShapeError\<close> stands for TensorFlow's shape and rank complaints (InvalidArgument,
  ValueError), \<open>TypeError\<close> for its refusal to combine tensors of two float types,
  \<open>IndexError\<close> for Python's, and \<open>NonFinite\<close> marks a returned number that IEEE
  arithmetic makes \<open>inf\<close> or \<open>NaN\<close> (division by a zero batch size, a mean over no samples,
  the logarithm of zero, the root of a negative variance). Numbers are real numbers: rounding
  and overflow of the floating-point type are not part of this model. The tensors of the
  model have gpflow's float type, \<open>Float64\<close> by default; the one \<open>Float32\<close> value is the
  tensor that TensorFlow makes of an empty Python list.
\<close>

datatype error = ShapeError | TypeError | IndexError | NonFinite

datatype dtype = Float32 | Float64

definition bindE :: "error + 'a \<Rightarrow> ('a \<Rightarrow> error + 'b) \<Rightarrow> error + 'b" where
  "bindE x f = (case x of Inl e \<Rightarrow> Inl e | Inr v \<Rightarrow> f v)"

section \<open>Tensors\<close>

text \<open>
  A tensor is its shape and its entries in row-major order, as TensorFlow stores it.
  \<open>unravel\<close> turns a flat position into a multi-index and \<open>ravel\<close> back; \<open>elem\<close> reads
  the entry at a multi-index.
\<close>

datatype tensor = Tensor (shape: "nat list") (data: "real list")

definition wf_tensor :: "tensor \<Rightarrow> bool" where
  "wf_tensor t = (length (data t) = prod_list (shape t))"

fun unravel :: "nat list \<Rightarrow> nat \<Rightarrow> nat list" where
  "unravel [] k = []"
| "unravel (n # ns) k = k div prod_list ns # unravel ns (k mod prod_list ns)"

fun ravel :: "nat list \<Rightarrow> nat list \<Rightarrow> nat" where
  "ravel (n # ns) (i # js) = i * prod_list ns + ravel ns js"
| "ravel _ _ = 0"

definition elem :: "tensor \<Rightarrow> nat list \<Rightarrow> real" where
  "elem t idx = data t ! ravel (shape t) idx"

text \<open>Python's axis numbers: \<open>-1\<close> is the last axis; an axis outside the rank is an error.\<close>

definition norm_axis :: "nat \<Rightarrow> int \<Rightarrow> nat option" where
  "norm_axis rank ax =
     (if 0 \<le> ax \<and> ax < int rank then Some (nat ax)
      else if - int rank \<le> ax \<and> ax < 0 then Some (nat (int rank + ax))
      else None)"

text \<open>\<^verbatim>\<open>tf.tile(t, multiples)\<close>: one multiple per axis; the output entry at a multi-index is
  the input entry at that index taken modulo the input shape.\<close>

definition tf_tile :: "tensor \<Rightarrow> nat list \<Rightarrow> error + tensor" where
  "tf_tile t multiples =
     (if length multiples \<noteq> length (shape t) then Inl ShapeError
      else let out = map2 (*) (shape t) multiples
           in Inr (Tensor out
                [data t ! ravel (shape t) (map2 (\<lambda>i n. i mod n) (unravel out k) (shape t)).
                   k \<leftarrow> [0..<prod_list out]]))"

text \<open>\<^verbatim>\<open>t[:, None, :]\<close> and \<^verbatim>\<open>t[None, :, :]\<close>: a new axis of length one at position \<open>pos\<close>;
  the \<open>nslices\<close> slices need that many axes in \<open>t\<close>.\<close>

definition tf_newaxis :: "tensor \<Rightarrow> nat \<Rightarrow> nat \<Rightarrow> error + tensor" where
  "tf_newaxis t pos nslices =
     (if length (shape t) < nslices then Inl IndexError
      else Inr (Tensor (take pos (shape t) @ [1] @ drop pos (shape t)) (data t)))"

text \<open>\<^verbatim>\<open>tf.concat(ts, -1)\<close>: the tensors agree on every axis but the last, and the rows along
  the last axis are laid side by side.\<close>

definition tf_concat_last :: "tensor list \<Rightarrow> error + tensor" where
  "tf_concat_last ts =
     (case ts of
        [] \<Rightarrow> Inl ShapeError
      | t # _ \<Rightarrow>
          if \<exists>u \<in> set ts. shape u = [] \<or> butlast (shape u) \<noteq> butlast (shape t) then Inl ShapeError
          else Inr (Tensor (butlast (shape t) @ [sum_list (map (\<lambda>u. last (shape u)) ts)])
                 (concat [concat (map (\<lambda>u. take (last (shape u)) (drop (r * last (shape u)) (data u))) ts).
                            r \<leftarrow> [0..<prod_list (butlast (shape t))]])))"

text \<open>A reduction along one axis: the output drops that axis, and each output entry is \<open>f\<close> of
  the entries along it.\<close>

definition tf_reduce :: "(real list \<Rightarrow> real) \<Rightarrow> tensor \<Rightarrow> int \<Rightarrow> error + tensor" where
  "tf_reduce f t ax =
     (case norm_axis (length (shape t)) ax of
        None \<Rightarrow> Inl ShapeError
      | Some a \<Rightarrow>
          let sh = shape t; outer = prod_list (take a sh); n = sh ! a;
              inner = prod_list (drop (Suc a) sh)
          in Inr (Tensor (take a sh @ drop (Suc a) sh)
               (concat [[f [data t ! ((p * n + j) * inner + q). j \<leftarrow> [0..<n]]. q \<leftarrow> [0..<inner]].
                          p \<leftarrow> [0..<outer]])))"

definition mean_list :: "real list \<Rightarrow> real" where
  "mean_list xs = sum_list xs / real (length xs)"

text \<open>\<^verbatim>\<open>tf.reduce_logsumexp\<close> as TensorFlow computes it: the maximum along the axis (replaced by
  zero when it is not finite, which over the reals is the empty row) is subtracted before
  exponentiating and added back after the logarithm.\<close>

fun max_list :: "real list \<Rightarrow> real" where
  "max_list [] = 0"
| "max_list (x # xs) = fold max xs x"

definition logsumexp_list :: "real list \<Rightarrow> real" where
  "logsumexp_list xs = (let my_max = max_list xs
                        in ln (sum_list (map (\<lambda>x. exp (x - my_max)) xs)) + my_max)"

definition tf_reduce_sum :: "tensor \<Rightarrow> int \<Rightarrow> error + tensor" where
  "tf_reduce_sum = tf_reduce sum_list"

definition tf_reduce_mean :: "tensor \<Rightarrow> int \<Rightarrow> error + tensor" where
  "tf_reduce_mean = tf_reduce mean_list"

definition tf_reduce_logsumexp :: "tensor \<Rightarrow> int \<Rightarrow> error + tensor" where
  "tf_reduce_logsumexp = tf_reduce logsumexp_list"

text \<open>\<^verbatim>\<open>tf.reduce_sum(t)\<close> with no axis: the sum of all entries.\<close>

definition tf_reduce_sum_all :: "tensor \<Rightarrow> real" where
  "tf_reduce_sum_all t = sum_list (data t)"

text \<open>\<^verbatim>\<open>tf.reduce_sum(ts)\<close> of a Python list of tensors: the list is packed into one tensor,
  which needs equal shapes, and summed. The empty list is packed into an empty tensor of type
  \<open>Float32\<close>, whose sum is zero.\<close>

definition tf_reduce_sum_list :: "tensor list \<Rightarrow> error + (dtype \<times> real)" where
  "tf_reduce_sum_list ts =
     (case ts of
        [] \<Rightarrow> Inr (Float32, 0)
      | t # us \<Rightarrow> if \<forall>u \<in> set us. shape u = shape t
                  then Inr (Float64, sum_list (map tf_reduce_sum_all ts)) else Inl ShapeError)"

text \<open>\<^verbatim>\<open>x - y\<close> for a \<open>Float64\<close> scalar \<open>x\<close> and a scalar tensor \<open>y\<close>: TensorFlow does not
  convert between float types, and raises.\<close>

definition tf_sub_float64 :: "real \<Rightarrow> dtype \<times> real \<Rightarrow> error + real" where
  "tf_sub_float64 x y = (case y of (Float64, v) \<Rightarrow> Inr (x - v) | (Float32, v) \<Rightarrow> Inl TypeError)"

definition tf_reshape :: "tensor \<Rightarrow> nat list \<Rightarrow> error + tensor" where
  "tf_reshape t sh =
     (if prod_list (shape t) = prod_list sh then Inr (Tensor sh (data t)) else Inl ShapeError)"

text \<open>Elementwise binary operations broadcast: shapes are aligned at the last axis, and an
  axis of length one (or a missing one) is repeated.\<close>

fun broadcast_rev :: "nat list \<Rightarrow> nat list \<Rightarrow> nat list option" where
  "broadcast_rev [] ys = Some ys"
| "broadcast_rev xs [] = Some xs"
| "broadcast_rev (x # xs) (y # ys) =
     (if x = y \<or> y = 1 then map_option ((#) x) (broadcast_rev xs ys)
      else if x = 1 then map_option ((#) y) (broadcast_rev xs ys)
      else None)"

definition broadcast_shape :: "nat list \<Rightarrow> nat list \<Rightarrow> nat list option" where
  "broadcast_shape xs ys = map_option rev (broadcast_rev (rev xs) (rev ys))"

definition bidx :: "nat list \<Rightarrow> nat list \<Rightarrow> nat list \<Rightarrow> nat list" where
  "bidx sh out idx = map2 (\<lambda>n i. if n = 1 then 0 else i) sh (drop (length out - length sh) idx)"

definition tf_binop :: "(real \<Rightarrow> real \<Rightarrow> real) \<Rightarrow> tensor \<Rightarrow> tensor \<Rightarrow> error + tensor" where
  "tf_binop f a b =
     (case broadcast_shape (shape a) (shape b) of
        None \<Rightarrow> Inl ShapeError
      | Some out \<Rightarrow>
          Inr (Tensor out
            [f (data a ! ravel (shape a) (bidx (shape a) out (unravel out k)))
               (data b ! ravel (shape b) (bidx (shape b) out (unravel out k))).
               k \<leftarrow> [0..<prod_list out]]))"

definition tf_sub :: "tensor \<Rightarrow> tensor \<Rightarrow> error + tensor" where
  "tf_sub = tf_binop (-)"

text \<open>A tensor minus a Python float.\<close>

definition tf_sub_scalar :: "tensor \<Rightarrow> real \<Rightarrow> tensor" where
  "tf_sub_scalar t c = Tensor (shape t) (map (\<lambda>x. x - c) (data t))"

text \<open>\<^verbatim>\<open>tf.transpose(t, perm)\<close>: output axis \<open>i\<close> is input axis \<open>perm ! i\<close>.\<close>

definition index_of :: "nat list \<Rightarrow> nat \<Rightarrow> nat" where
  "index_of perm j = length (takeWhile (\<lambda>p. p \<noteq> j) perm)"

definition tf_transpose :: "tensor \<Rightarrow> nat list \<Rightarrow> error + tensor" where
  "tf_transpose t perm =
     (if sort perm \<noteq> [0..<length (shape t)] then Inl ShapeError
      else let out = map (\<lambda>p. shape t ! p) perm
           in Inr (Tensor out
                [data t ! ravel (shape t) [unravel out k ! index_of perm j. j \<leftarrow> [0..<length perm]].
                   k \<leftarrow> [0..<prod_list out]]))"

text \<open>\<^verbatim>\<open>tf.matrix_diag_part(t)\<close>: the diagonal of each innermost matrix.\<close>

definition tf_matrix_diag_part :: "tensor \<Rightarrow> error + tensor" where
  "tf_matrix_diag_part t =
     (if length (shape t) < 2 then Inl ShapeError
      else let lead = take (length (shape t) - 2) (shape t);
               m = shape t ! (length (shape t) - 2);
               n = shape t ! (length (shape t) - 1)
           in Inr (Tensor (lead @ [min m n])
                (concat [[data t ! ((p * m + i) * n + i). i \<leftarrow> [0..<min m n]].
                           p \<leftarrow> [0..<prod_list lead]])))"

definition last_item :: "'a list \<Rightarrow> error + 'a" where
  "last_item xs = (if xs = [] then Inl IndexError else Inr (last xs))"

text \<open>\<^verbatim>\<open>tf.shape(t)[0]\<close>.\<close>

definition shape0 :: "tensor \<Rightarrow> error + nat" where
  "shape0 t = (case shape t of [] \<Rightarrow> Inl ShapeError | n # _ \<Rightarrow> Inr n)"

section \<open>Layers, likelihood and model\<close>

text \<open>
  Modelled from the spec: the layers and the likelihood (\<^verbatim>\<open>elfi.methods.bo.iwvi.layers\<close>,
  gpflow) are external to \<^verbatim>\<open>models.py\<close>. A regularizer kind is \<open>LOCAL\<close> or \<open>GLOBAL\<close>. A layer
  is the one capability \<open>propagate(sample, full_cov, inference_amorization_inputs,
  is_sampled_local_regularizer)\<close> returning sample, mean, covariance and regularizer, with its
  static kind. A layer draws random numbers: it reads and advances a source of randomness
  \<open>'r\<close>, and it may raise.
\<close>

datatype RegularizerType = LOCAL | GLOBAL

type_synonym layer_out = "tensor \<times> tensor \<times> tensor \<times> tensor"

record 'r layer =
  layer_propagate :: "tensor \<Rightarrow> bool \<Rightarrow> tensor option \<Rightarrow> bool \<Rightarrow> 'r \<Rightarrow> error + (layer_out \<times> 'r)"
  regularizer_type :: RegularizerType

record likelihood =
  variational_expectations :: "tensor \<Rightarrow> tensor \<Rightarrow> tensor \<Rightarrow> error + tensor"
  predict_mean_and_var :: "tensor \<Rightarrow> tensor \<Rightarrow> error + (tensor \<times> tensor)"

text \<open>\<^verbatim>\<open>gpflow.params.DataHolder(X)\<close> and \<^verbatim>\<open>gpflow.params.Minibatch(X, batch_size, seed)\<close>.\<close>

datatype data_param = DataHolder tensor | Minibatch tensor nat nat

record 'r model =
  model_name :: "string option"
  likelihood :: likelihood
  num_data :: nat
  num_samples :: nat
  data_X :: data_param
  data_Y :: data_param
  layers :: "'r layer list"

text \<open>The body of \<^verbatim>\<open>DGP_VI.__init__\<close> (lines 10-28). \<^verbatim>\<open>X.shape[0]\<close> needs an axis; the
  body asks nothing of the layers. What a constructor call does after this body is
  \<open>construct\<close>, below.\<close>

definition DGP_VI_init ::
  "tensor \<Rightarrow> tensor \<Rightarrow> 'r layer list \<Rightarrow> likelihood \<Rightarrow> nat \<Rightarrow> nat option \<Rightarrow> string option
     \<Rightarrow> error + 'r model" where
  "DGP_VI_init X Y layers_arg likelihood_arg num_samples_arg minibatch_size name_arg =
     (case shape X of
        [] \<Rightarrow> Inl IndexError
      | n # _ \<Rightarrow>
          Inr \<lparr> model_name = name_arg,
                likelihood = likelihood_arg,
                num_data = n,
                num_samples = num_samples_arg,
                data_X = (case minibatch_size of None \<Rightarrow> DataHolder X
                          | Some b \<Rightarrow> Minibatch X b 0),
                data_Y = (case minibatch_size of None \<Rightarrow> DataHolder Y
                          | Some b \<Rightarrow> Minibatch Y b 0),
                layers = layers_arg \<rparr>)"

section \<open>Propagation\<close>

type_synonym propagation =
  "tensor list \<times> tensor list \<times> tensor list \<times> tensor list \<times> RegularizerType list"

text \<open>The loop of \<^verbatim>\<open>DGP_VI.propagate\<close> (lines 35-44) over the remaining layers, with the five
  lists built so far.\<close>

fun propagate_loop ::
  "'r layer list \<Rightarrow> propagation \<Rightarrow> bool \<Rightarrow> tensor option \<Rightarrow> bool \<Rightarrow> 'r
     \<Rightarrow> error + (propagation \<times> 'r)" where
  "propagate_loop [] acc full_cov amort sampled r = Inr (acc, r)"
| "propagate_loop (layer # rest) (samples, means, covs, kls, kl_types) full_cov amort sampled r =
     (case layer_propagate layer (last samples) full_cov amort sampled r of
        Inl e \<Rightarrow> Inl e
      | Inr ((sample, mean, cov, kl), r') \<Rightarrow>
          propagate_loop rest
            (samples @ [sample], means @ [mean], covs @ [cov], kls @ [kl],
             kl_types @ [regularizer_type layer])
            full_cov amort sampled r')"

text \<open>\<^verbatim>\<open>DGP_VI.propagate\<close> (lines 31-46).\<close>

definition propagate ::
  "'r model \<Rightarrow> tensor \<Rightarrow> bool \<Rightarrow> tensor option \<Rightarrow> bool \<Rightarrow> 'r \<Rightarrow> error + (propagation \<times> 'r)" where
  "propagate self X0 full_cov amort sampled r =
     bindE (propagate_loop (layers self) ([X0], [], [], [], []) full_cov amort sampled r)
       (\<lambda>((samples, means, covs, kls, kl_types), r').
          Inr ((drop 1 samples, means, covs, kls, kl_types), r'))"

section \<open>The two training objectives\<close>

text \<open>\<^verbatim>\<open>DGP_VI._build_likelihood\<close> (lines 49-86). \<open>Xb\<close> and \<open>Yb\<close> are the tensors that
  \<^verbatim>\<open>self.X\<close> and \<^verbatim>\<open>self.Y\<close> hold at this evaluation: the whole array of a DataHolder, the
  current batch of a Minibatch. Line 86 subtracts the sum of the global regularizers from the
  \<open>Float64\<close> data term, which raises when the list is empty. The returned number is not
  finite when there is no sample or no data point.\<close>

definition DGP_VI_build_likelihood ::
  "'r model \<Rightarrow> tensor \<Rightarrow> tensor \<Rightarrow> 'r \<Rightarrow> error + (real \<times> 'r)" where
  "DGP_VI_build_likelihood self Xb Yb r =
     bindE (tf_tile Xb [num_samples self, 1]) (\<lambda>X_tiled.
     bindE (tf_tile Yb [num_samples self, 1]) (\<lambda>Y_tiled.
     bindE (tf_concat_last [X_tiled, Y_tiled]) (\<lambda>XY.
     bindE (propagate self X_tiled False (Some XY) False r)
       (\<lambda>((samples, means, covs, kls, kl_types), r').
     let local_kls = [kl. (kl, t) \<leftarrow> zip kls kl_types, t = LOCAL];
         global_kls = [kl. (kl, t) \<leftarrow> zip kls kl_types, t = GLOBAL] in
     bindE (last_item means) (\<lambda>mean_last.
     bindE (last_item covs) (\<lambda>cov_last.
     bindE (variational_expectations (likelihood self) mean_last cov_last Y_tiled) (\<lambda>var_exp.
     bindE (tf_reduce_sum var_exp (- 1)) (\<lambda>L_SN.
     bindE (shape0 Xb) (\<lambda>N.
     let shape_S_N = [num_samples self, N] in
     bindE (tf_reshape L_SN shape_S_N) (\<lambda>L_S_N0.
     bindE (if length local_kls > 0
            then bindE (tf_concat_last local_kls) (\<lambda>local_kls_SN_D.
                 bindE (tf_reduce_sum local_kls_SN_D (- 1)) (\<lambda>local_kls_SN.
                 bindE (tf_reshape local_kls_SN shape_S_N) (\<lambda>local_kls_S_N.
                 tf_sub L_S_N0 local_kls_S_N)))
            else Inr L_S_N0) (\<lambda>L_S_N.
     let scale = real (num_data self) / real N in
     bindE (tf_reduce_mean L_S_N 0) (\<lambda>logp.
     bindE (tf_reduce_sum_list global_kls) (\<lambda>global_sum.
     bindE (tf_sub_float64 (tf_reduce_sum_all logp * scale) global_sum) (\<lambda>bound.
     if num_samples self = 0 \<or> N = 0 then Inl NonFinite
     else Inr (bound, r')))))))))))))))"

text \<open>Line 146 of \<^verbatim>\<open>DGP_IWVI._build_likelihood\<close>:
  \<^verbatim>\<open>tf.transpose(tf.matrix_diag_part(covs[-1]), [0, 2, 1])\<close>.\<close>

definition DGP_IWVI_cov_diag :: "tensor \<Rightarrow> error + tensor" where
  "DGP_IWVI_cov_diag cov_last =
     bindE (tf_matrix_diag_part cov_last) (\<lambda>diag_part. tf_transpose diag_part [0, 2, 1])"

text \<open>\<^verbatim>\<open>DGP_IWVI._build_likelihood\<close> (lines 125-163).\<close>

definition DGP_IWVI_build_likelihood ::
  "'r model \<Rightarrow> tensor \<Rightarrow> tensor \<Rightarrow> 'r \<Rightarrow> error + (real \<times> 'r)" where
  "DGP_IWVI_build_likelihood self Xb Yb r =
     bindE (tf_newaxis Xb 1 2) (\<lambda>X1.
     bindE (tf_tile X1 [1, num_samples self, 1]) (\<lambda>X_tiled.
     bindE (tf_newaxis Yb 1 2) (\<lambda>Y1.
     bindE (tf_tile Y1 [1, num_samples self, 1]) (\<lambda>Y_tiled.
     bindE (tf_concat_last [X_tiled, Y_tiled]) (\<lambda>XY.
     bindE (propagate self X_tiled True (Some XY) True r)
       (\<lambda>((samples, means, covs, kls, kl_types), r').
     let local_kls = [kl. (kl, t) \<leftarrow> zip kls kl_types, t = LOCAL];
         global_kls = [kl. (kl, t) \<leftarrow> zip kls kl_types, t = GLOBAL] in
     bindE (last_item covs) (\<lambda>cov_last.
     bindE (DGP_IWVI_cov_diag cov_last) (\<lambda>cov_diag.
     bindE (last_item means) (\<lambda>mean_last.
     bindE (variational_expectations (likelihood self) mean_last cov_diag Y_tiled) (\<lambda>var_exp.
     bindE (tf_reduce_sum var_exp 2) (\<lambda>L_NK0.
     bindE (if length local_kls > 0
            then bindE (tf_concat_last local_kls) (\<lambda>local_kls_NKD.
                 bindE (tf_reduce_sum local_kls_NKD 2) (\<lambda>local_kls_NK.
                 tf_sub L_NK0 local_kls_NK))
            else Inr L_NK0) (\<lambda>L_NK.
     bindE (shape0 Xb) (\<lambda>N.
     let scale = real (num_data self) / real N in
     bindE (tf_reduce_logsumexp L_NK 1) (\<lambda>lse.
     let logp = tf_sub_scalar lse (ln (real (num_samples self))) in
     bindE (tf_reduce_sum_list global_kls) (\<lambda>global_sum.
     bindE (tf_sub_float64 (tf_reduce_sum_all logp * scale) global_sum) (\<lambda>bound.
     if num_samples self = 0 \<or> N = 0 then Inl NonFinite
     else Inr (bound, r')))))))))))))))))"

section \<open>Prediction\<close>

text \<open>\<^verbatim>\<open>DGP_VI._build_predict\<close> (lines 89-91) and \<^verbatim>\<open>_build_predict_decomp\<close> (lines 94-96):
  \<^verbatim>\<open>propagate\<close> with its defaults for the side information and the regularizer flag.\<close>

definition build_predict ::
  "'r model \<Rightarrow> tensor \<Rightarrow> bool \<Rightarrow> 'r \<Rightarrow> error + ((tensor \<times> tensor \<times> tensor) \<times> 'r)" where
  "build_predict self Xnew full_cov r =
     bindE (propagate self Xnew full_cov None False r) (\<lambda>((fs, means, covs, _, _), r').
     bindE (last_item fs) (\<lambda>f_last.
     bindE (last_item means) (\<lambda>mean_last.
     bindE (last_item covs) (\<lambda>cov_last.
     Inr ((f_last, mean_last, cov_last), r')))))"

definition build_predict_decomp ::
  "'r model \<Rightarrow> tensor \<Rightarrow> bool \<Rightarrow> 'r \<Rightarrow> error + ((tensor \<times> tensor \<times> tensor list) \<times> 'r)" where
  "build_predict_decomp self Xnew full_cov r =
     bindE (propagate self Xnew full_cov None False r) (\<lambda>((fs, means, covs, _, _), r').
     bindE (last_item fs) (\<lambda>f_last.
     bindE (last_item means) (\<lambda>mean_last.
     Inr ((f_last, mean_last, covs), r'))))"

text \<open>\<^verbatim>\<open>DGP_VI.predict_f_multisample\<close> (lines 100-103).\<close>

definition predict_f_multisample ::
  "'r model \<Rightarrow> tensor \<Rightarrow> nat \<Rightarrow> 'r \<Rightarrow> error + ((tensor \<times> tensor) \<times> 'r)" where
  "predict_f_multisample self Xnew S r =
     bindE (tf_newaxis Xnew 0 2) (\<lambda>X1.
     bindE (tf_tile X1 [S, 1, 1]) (\<lambda>X_tiled.
     bindE (propagate self X_tiled False None False r) (\<lambda>((_, means, covs, _, _), r').
     bindE (last_item means) (\<lambda>mean_last.
     bindE (last_item covs) (\<lambda>cov_last.
     Inr ((mean_last, cov_last), r'))))))"

text \<open>\<^verbatim>\<open>DGP_VI.predict_y_samples\<close> (lines 107-120). \<open>random_normal\<close> is
  \<^verbatim>\<open>tf.random_normal\<close>: a tensor of the asked shape drawn from the source of randomness. The
  result is not finite where a predicted variance is negative.\<close>

definition predict_y_samples ::
  "(nat list \<Rightarrow> 'r \<Rightarrow> tensor \<times> 'r) \<Rightarrow> 'r model \<Rightarrow> tensor \<Rightarrow> nat \<Rightarrow> 'r \<Rightarrow> error + (tensor \<times> 'r)" where
  "predict_y_samples random_normal self Xnew S r =
     bindE (tf_newaxis Xnew 0 2) (\<lambda>X1.
     bindE (tf_tile X1 [S, 1, 1]) (\<lambda>X_tiled.
     bindE (propagate self X_tiled False None False r) (\<lambda>((_, means, covs, _, _), r').
     bindE (last_item means) (\<lambda>mean_last.
     bindE (last_item covs) (\<lambda>cov_last.
     bindE (predict_mean_and_var (likelihood self) mean_last cov_last) (\<lambda>(m, v).
     case random_normal (shape mean_last) r' of (z, r'') \<Rightarrow>
     bindE (tf_binop (*) z (Tensor (shape v) (map sqrt (data v)))) (\<lambda>zv.
     bindE (tf_binop (+) m zv) (\<lambda>res.
     if \<exists>x \<in> set (data v). x < 0 then Inl NonFinite else Inr (res, r'')))))))))"

section \<open>The two model classes\<close>

text \<open>A class is the table of its methods. \<^verbatim>\<open>class DGP_IWVI(DGP_VI)\<close> defines
  \<^verbatim>\<open>_build_likelihood\<close> only: its table is that of \<open>DGP_VI\<close> with this one entry replaced.\<close>

record 'r dgp_class =
  m_init :: "tensor \<Rightarrow> tensor \<Rightarrow> 'r layer list \<Rightarrow> likelihood \<Rightarrow> nat \<Rightarrow> nat option \<Rightarrow> string option
               \<Rightarrow> error + 'r model"
  m_propagate :: "'r model \<Rightarrow> tensor \<Rightarrow> bool \<Rightarrow> tensor option \<Rightarrow> bool \<Rightarrow> 'r
               \<Rightarrow> error + (propagation \<times> 'r)"
  m_build_likelihood :: "'r model \<Rightarrow> tensor \<Rightarrow> tensor \<Rightarrow> 'r \<Rightarrow> error + (real \<times> 'r)"
  m_build_predict :: "'r model \<Rightarrow> tensor \<Rightarrow> bool \<Rightarrow> 'r
               \<Rightarrow> error + ((tensor \<times> tensor \<times> tensor) \<times> 'r)"
  m_build_predict_decomp :: "'r model \<Rightarrow> tensor \<Rightarrow> bool \<Rightarrow> 'r
               \<Rightarrow> error + ((tensor \<times> tensor \<times> tensor list) \<times> 'r)"
  m_predict_f_multisample :: "'r model \<Rightarrow> tensor \<Rightarrow> nat \<Rightarrow> 'r \<Rightarrow> error + ((tensor \<times> tensor) \<times> 'r)"
  m_predict_y_samples :: "(nat list \<Rightarrow> 'r \<Rightarrow> tensor \<times> 'r) \<Rightarrow> 'r model \<Rightarrow> tensor \<Rightarrow> nat \<Rightarrow> 'r
               \<Rightarrow> error + (tensor \<times> 'r)"

definition DGP_VI :: "'r dgp_class" where
  "DGP_VI = \<lparr> m_init = DGP_VI_init,
              m_propagate = propagate,
              m_build_likelihood = DGP_VI_build_likelihood,
              m_build_predict = build_predict,
              m_build_predict_decomp = build_predict_decomp,
              m_predict_f_multisample = predict_f_multisample,
              m_predict_y_samples = predict_y_samples \<rparr>"

definition DGP_IWVI :: "'r dgp_class" where
  "DGP_IWVI = DGP_VI \<lparr> m_build_likelihood := DGP_IWVI_build_likelihood \<rparr>"

text \<open>Construction. gpflow wraps the constructor of a model class (its metaclass
  \<^verbatim>\<open>AutoBuild\<close>): once \<^verbatim>\<open>__init__\<close> has returned, the model is built, and building a model
  evaluates the class's own \<^verbatim>\<open>_build_likelihood\<close> on the tensors that \<^verbatim>\<open>self.X\<close> and
  \<^verbatim>\<open>self.Y\<close> hold. An exception raised there is raised by the constructor call; a number that
  is not finite is no exception. (Inside \<^verbatim>\<open>gpflow.defer_build()\<close> the build waits for
  \<^verbatim>\<open>compile()\<close>.) A DataHolder holds its array; which rows a Minibatch yields is the business
  of its iterator, the parameter \<open>feed\<close>.\<close>

type_synonym minibatch_feed = "tensor \<Rightarrow> nat \<Rightarrow> nat \<Rightarrow> tensor"

definition param_tensor :: "minibatch_feed \<Rightarrow> data_param \<Rightarrow> tensor" where
  "param_tensor feed p =
     (case p of DataHolder t \<Rightarrow> t | Minibatch t batch_size seed \<Rightarrow> feed t batch_size seed)"

definition construct ::
  "'r dgp_class \<Rightarrow> minibatch_feed \<Rightarrow> tensor \<Rightarrow> tensor \<Rightarrow> 'r layer list \<Rightarrow> likelihood \<Rightarrow> nat
     \<Rightarrow> nat option \<Rightarrow> string option \<Rightarrow> 'r \<Rightarrow> error + 'r model" where
  "construct cls feed X Y layers_arg likelihood_arg num_samples_arg minibatch_size name_arg r =
     bindE (m_init cls X Y layers_arg likelihood_arg num_samples_arg minibatch_size name_arg)
       (\<lambda>self.
     case m_build_likelihood cls self
            (param_tensor feed (data_X self)) (param_tensor feed (data_Y self)) r of
       Inl e \<Rightarrow> if e = NonFinite then Inr self else Inl e
     | Inr _ \<Rightarrow> Inr self)"

section \<open>Stages of the objectives\<close>

text \<open>Prefixes of the two objective functions, named so that properties of their later steps
  can be stated. \<open>DGP_VI_L_S_N_before_local\<close> is lines 50-72 of \<^verbatim>\<open>DGP_VI._build_likelihood\<close>:
  it yields the reshaped \<open>L_S_N\<close>, the batch size, the regularizers and their kinds.\<close>

definition DGP_VI_L_S_N_before_local ::
  "'r model \<Rightarrow> tensor \<Rightarrow> tensor \<Rightarrow> 'r
     \<Rightarrow> error + ((tensor \<times> nat \<times> tensor list \<times> RegularizerType list) \<times> 'r)" where
  "DGP_VI_L_S_N_before_local self Xb Yb r =
     bindE (tf_tile Xb [num_samples self, 1]) (\<lambda>X_tiled.
     bindE (tf_tile Yb [num_samples self, 1]) (\<lambda>Y_tiled.
     bindE (tf_concat_last [X_tiled, Y_tiled]) (\<lambda>XY.
     bindE (propagate self X_tiled False (Some XY) False r)
       (\<lambda>((samples, means, covs, kls, kl_types), r').
     bindE (last_item means) (\<lambda>mean_last.
     bindE (last_item covs) (\<lambda>cov_last.
     bindE (variational_expectations (likelihood self) mean_last cov_last Y_tiled) (\<lambda>var_exp.
     bindE (tf_reduce_sum var_exp (- 1)) (\<lambda>L_SN.
     bindE (shape0 Xb) (\<lambda>N.
     bindE (tf_reshape L_SN [num_samples self, N]) (\<lambda>L_S_N0.
     Inr ((L_S_N0, N, kls, kl_types), r')))))))))))"

text \<open>The two list comprehensions of lines 63-64 (and 140-141): the regularizers of the
  layers of one kind.\<close>

definition kls_of_type :: "RegularizerType \<Rightarrow> tensor list \<Rightarrow> RegularizerType list \<Rightarrow> tensor list" where
  "kls_of_type ty kls kl_types = [kl. (kl, t) \<leftarrow> zip kls kl_types, t = ty]"

text \<open>Lines 74-78: the subtraction of the local regularizers from \<open>L_S_N\<close>.\<close>

definition VI_subtract_local :: "nat list \<Rightarrow> tensor \<Rightarrow> tensor list \<Rightarrow> error + tensor" where
  "VI_subtract_local shape_S_N L_S_N0 local_kls =
     (if length local_kls > 0
      then bindE (tf_concat_last local_kls) (\<lambda>local_kls_SN_D.
           bindE (tf_reduce_sum local_kls_SN_D (- 1)) (\<lambda>local_kls_SN.
           bindE (tf_reshape local_kls_SN shape_S_N) (\<lambda>local_kls_S_N.
           tf_sub L_S_N0 local_kls_S_N)))
      else Inr L_S_N0)"

text \<open>Lines 50-78: \<open>L_S_N\<close> after the subtraction of the local regularizers, the batch size and
  the global regularizers.\<close>

definition DGP_VI_L_S_N ::
  "'r model \<Rightarrow> tensor \<Rightarrow> tensor \<Rightarrow> 'r \<Rightarrow> error + ((tensor \<times> nat \<times> tensor list) \<times> 'r)" where
  "DGP_VI_L_S_N self Xb Yb r =
     bindE (DGP_VI_L_S_N_before_local self Xb Yb r) (\<lambda>((L_S_N0, N, kls, kl_types), r').
     bindE (VI_subtract_local [num_samples self, N] L_S_N0 (kls_of_type LOCAL kls kl_types))
       (\<lambda>L_S_N.
     Inr ((L_S_N, N, kls_of_type GLOBAL kls kl_types), r')))"

text \<open>Lines 126-151 of \<^verbatim>\<open>DGP_IWVI._build_likelihood\<close>: \<open>L_NK\<close> before the local regularizers
  are subtracted, the regularizers and their kinds.\<close>

definition DGP_IWVI_L_NK_before_local ::
  "'r model \<Rightarrow> tensor \<Rightarrow> tensor \<Rightarrow> 'r
     \<Rightarrow> error + ((tensor \<times> tensor list \<times> RegularizerType list) \<times> 'r)" where
  "DGP_IWVI_L_NK_before_local self Xb Yb r =
     bindE (tf_newaxis Xb 1 2) (\<lambda>X1.
     bindE (tf_tile X1 [1, num_samples self, 1]) (\<lambda>X_tiled.
     bindE (tf_newaxis Yb 1 2) (\<lambda>Y1.
     bindE (tf_tile Y1 [1, num_samples self, 1]) (\<lambda>Y_tiled.
     bindE (tf_concat_last [X_tiled, Y_tiled]) (\<lambda>XY.
     bindE (propagate self X_tiled True (Some XY) True r)
       (\<lambda>((samples, means, covs, kls, kl_types), r').
     bindE (last_item covs) (\<lambda>cov_last.
     bindE (DGP_IWVI_cov_diag cov_last) (\<lambda>cov_diag.
     bindE (last_item means) (\<lambda>mean_last.
     bindE (variational_expectations (likelihood self) mean_last cov_diag Y_tiled) (\<lambda>var_exp.
     bindE (tf_reduce_sum var_exp 2) (\<lambda>L_NK0.
     Inr ((L_NK0, kls, kl_types), r'))))))))))))"

text \<open>Lines 153-155: the subtraction of the local regularizers from \<open>L_NK\<close>.\<close>

definition IWVI_subtract_local :: "tensor \<Rightarrow> tensor list \<Rightarrow> error + tensor" where
  "IWVI_subtract_local L_NK0 local_kls =
     (if length local_kls > 0
      then bindE (tf_concat_last local_kls) (\<lambda>local_kls_NKD.
           bindE (tf_reduce_sum local_kls_NKD 2) (\<lambda>local_kls_NK.
           tf_sub L_NK0 local_kls_NK))
      else Inr L_NK0)"

text \<open>Lines 126-155: \<open>L_NK\<close> after the subtraction, and the global regularizers.\<close>

definition DGP_IWVI_L_NK ::
  "'r model \<Rightarrow> tensor \<Rightarrow> tensor \<Rightarrow> 'r \<Rightarrow> error + ((tensor \<times> tensor list) \<times> 'r)" where
  "DGP_IWVI_L_NK self Xb Yb r =
     bindE (DGP_IWVI_L_NK_before_local self Xb Yb r) (\<lambda>((L_NK0, kls, kl_types), r').
     bindE (IWVI_subtract_local L_NK0 (kls_of_type LOCAL kls kl_types)) (\<lambda>L_NK.
     Inr ((L_NK, kls_of_type GLOBAL kls kl_types), r')))"

text \<open>A layer that is handed fixed flags whatever its caller passes.\<close>

definition force_flags :: "bool \<Rightarrow> bool \<Rightarrow> 'r layer \<Rightarrow> 'r layer" where
  "force_flags full_cov sampled l =
     l \<lparr> layer_propagate := (\<lambda>x _ amort _ r. layer_propagate l x full_cov amort sampled r) \<rparr>"

section \<open>The overview's wording of the VI reduction\<close>

text \<open>The system overview of the specification describes the VI reduction as a log of an
  average. \<open>log_of_average\<close> follows these words: the logarithm of the arithmetic mean of the
  per-sample densities \<open>exp L\<close>; \<open>log_of_average_entries\<close> is the other reading, the logarithm
  of the mean of the entries themselves. \<open>VI_bound_with_reduction f\<close> is the objective with
  the reduction \<open>f\<close> over the sample axis in the place of line 84.\<close>

definition log_of_average :: "real list \<Rightarrow> real" where
  "log_of_average xs = ln (mean_list (map exp xs))"

definition log_of_average_entries :: "real list \<Rightarrow> real" where
  "log_of_average_entries xs = ln (mean_list xs)"

definition VI_bound_with_reduction ::
  "(real list \<Rightarrow> real) \<Rightarrow> 'r model \<Rightarrow> tensor \<Rightarrow> tensor \<Rightarrow> 'r \<Rightarrow> error + (real \<times> 'r)" where
  "VI_bound_with_reduction f self Xb Yb r =
     bindE (DGP_VI_L_S_N self Xb Yb r) (\<lambda>((L_S_N, N, global_kls), r').
     bindE (tf_reduce f L_S_N 0) (\<lambda>logp.
     bindE (tf_reduce_sum_list global_kls) (\<lambda>global_sum.
     bindE (tf_sub_float64 (tf_reduce_sum_all logp * (real (num_data self) / real N)) global_sum)
       (\<lambda>bound.
     if num_samples self = 0 \<or> N = 0 then Inl NonFinite
     else Inr (bound, r')))))"

section \<open>Example layers and models\<close>

text \<open>A layer whose sample is its input with one added to every entry, which returns fixed
  moments and a fixed regularizer, and counts its calls in the source of randomness.\<close>

definition const_layer :: "tensor \<Rightarrow> tensor \<Rightarrow> tensor \<Rightarrow> RegularizerType \<Rightarrow> nat layer" where
  "const_layer mean cov kl t =
     \<lparr> layer_propagate = (\<lambda>x full_cov amort sampled r.
          Inr ((Tensor (shape x) (map (\<lambda>v. v + 1) (data x)), mean, cov, kl), Suc r)),
       regularizer_type = t \<rparr>"


text \<open>A likelihood whose variational expectation is the mean it is given.\<close>

definition mean_likelihood :: likelihood where
  "mean_likelihood =
     \<lparr> variational_expectations = (\<lambda>mean cov y. Inr mean),
       predict_mean_and_var = (\<lambda>mean cov. Inr (mean, cov)) \<rparr>"

definition example_model :: "nat \<Rightarrow> nat layer list \<Rightarrow> nat model" where
  "example_model S ls =
     \<lparr> model_name = None, likelihood = mean_likelihood, num_data = 1, num_samples = S,
       data_X = DataHolder (Tensor [1, 1] [0]), data_Y = DataHolder (Tensor [1, 1] [0]),
       layers = ls \<rparr>"

definition example_batch :: tensor where
  "example_batch = Tensor [1, 1] [0]"

text \<open>One data point and two samples; the single layer is \<open>GLOBAL\<close> and its final mean gives the
  two samples the log-densities 0 and 2.\<close>

definition vi_example :: "nat model" where
  "vi_example = example_model 2
     [const_layer (Tensor [2, 1] [0, 2]) (Tensor [2, 1] [1, 1]) (Tensor [] [0]) GLOBAL]"

definition iwvi_example :: "nat model" where
  "iwvi_example = example_model 2
     [const_layer (Tensor [1, 2, 1] [0, 2]) (Tensor [1, 1, 2, 2] [1, 0, 0, 1]) (Tensor [] [0]) GLOBAL]"

text \<open>The same with a \<open>LOCAL\<close> layer, whose regularizer has one entry per sample and point.\<close>

definition vi_local_example :: "nat model" where
  "vi_local_example = example_model 2
     [const_layer (Tensor [2, 1] [0, 2]) (Tensor [2, 1] [1, 1]) (Tensor [2, 1] [1, 1]) LOCAL]"

definition iwvi_local_example :: "nat model" where
  "iwvi_local_example = example_model 2
     [const_layer (Tensor [1, 2, 1] [0, 2]) (Tensor [1, 1, 2, 2] [1, 0, 0, 1])
        (Tensor [1, 2, 1] [1, 1]) LOCAL]"

text \<open>A \<open>LOCAL\<close> layer followed by a \<open>GLOBAL\<close> one whose regularizer is 3.\<close>

definition vi_both_example :: "nat model" where
  "vi_both_example = example_model 2
     [const_layer (Tensor [2, 1] [9, 9]) (Tensor [2, 1] [1, 1]) (Tensor [2, 1] [1, 1]) LOCAL,
      const_layer (Tensor [2, 1] [0, 2]) (Tensor [2, 1] [1, 1]) (Tensor [] [3]) GLOBAL]"

text \<open>Models for a batch of two points and two samples, with a global regularizer 3.\<close>

definition vi_scale_example :: "nat model" where
  "vi_scale_example = example_model 2
     [const_layer (Tensor [4, 1] [0, 2, 4, 6]) (Tensor [4, 1] [1, 1, 1, 1]) (Tensor [] [3]) GLOBAL]"

definition iwvi_scale_example :: "nat model" where
  "iwvi_scale_example = example_model 2
     [const_layer (Tensor [2, 2, 1] [1, 1, 2, 2]) (Tensor [2, 1, 2, 2] [1, 0, 0, 1, 1, 0, 0, 1])
        (Tensor [] [3]) GLOBAL]"

text \<open>Two layers, for the order of propagation.\<close>

definition two_layer_example :: "nat model" where
  "two_layer_example = example_model 1
     [const_layer (Tensor [1, 1] [3]) (Tensor [1, 1] [4]) (Tensor [] [5]) GLOBAL,
      const_layer (Tensor [1, 1] [6]) (Tensor [1, 1] [7]) (Tensor [1, 1] [8]) LOCAL]"


text \<open>A batch of two points with one feature each.\<close>

definition two_point_batch :: tensor where
  "two_point_batch = Tensor [2, 1] [10, 20]"

text \<open>A likelihood whose variational expectation is the covariance argument it is given, and a
  one-layer model around it whose final covariance is \<open>c\<close>: the objective then shows what
  the likelihood received.\<close>

definition cov_probe_likelihood :: likelihood where
  "cov_probe_likelihood =
     \<lparr> variational_expectations = (\<lambda>mean cov y. Inr cov),
       predict_mean_and_var = (\<lambda>mean cov. Inr (mean, cov)) \<rparr>"

definition cov_probe_example :: "tensor \<Rightarrow> nat model" where
  "cov_probe_example c =
     (example_model 2 [const_layer (Tensor [1, 2, 1] [0, 0]) c (Tensor [] [0]) GLOBAL])
       \<lparr> likelihood := cov_probe_likelihood \<rparr>"

text \<open>A layer whose mean depends on the two flags it is handed, and a model around it.\<close>

definition flag_layer :: "tensor \<Rightarrow> tensor \<Rightarrow> tensor \<Rightarrow> nat layer" where
  "flag_layer mean_plain mean_full cov =
     \<lparr> layer_propagate = (\<lambda>x full_cov amort sampled r.
          Inr ((x, (if full_cov \<and> sampled then mean_full else mean_plain), cov, Tensor [] [0]),
               Suc r)),
       regularizer_type = GLOBAL \<rparr>"

definition vi_flag_example :: "nat model" where
  "vi_flag_example = example_model 2
     [flag_layer (Tensor [2, 1] [0, 2]) (Tensor [2, 1] [5, 7]) (Tensor [2, 1] [1, 1])]"

definition iwvi_flag_example :: "nat model" where
  "iwvi_flag_example = example_model 1
     [flag_layer (Tensor [1, 1, 1] [5]) (Tensor [1, 1, 1] [3]) (Tensor [1, 1, 1, 1] [1])]"

text \<open>A stand-in for \<^verbatim>\<open>tf.random_normal\<close> that draws ones and advances the source of
  randomness.\<close>

definition ones_normal :: "nat list \<Rightarrow> nat \<Rightarrow> tensor \<times> nat" where
  "ones_normal sh r = (Tensor sh (replicate (prod_list sh) 1), Suc r)"

section \<open>Basic facts\<close>

lemma bindE_Inr [simp]: "bindE (Inr v) f = f v"
  by (simp add: bindE_def)

lemma bindE_Inl [simp]: "bindE (Inl e) f = Inl e"
  by (simp add: bindE_def)

lemma bindE_eq_Inr: "bindE x f = Inr y \<longleftrightarrow> (\<exists>v. x = Inr v \<and> f v = Inr y)"
  by (cases x) simp_all

lemma tf_sub_float64_simps [simp]:
  "tf_sub_float64 x (Float64, v) = Inr (x - v)"
  "tf_sub_float64 x (Float32, v) = Inl TypeError"
  by (simp_all add: tf_sub_float64_def)

lemma sum_list_map_upt0: "sum_list (map f [0..<n]) = (\<Sum>i<n. f i)"
  by (simp add: interv_sum_list_conv_sum_set_nat atLeast0LessThan)

lemma flat2_less: "i < a \<Longrightarrow> j < b \<Longrightarrow> i * b + j < a * (b::nat)"
proof -
  assume "i < a" "j < b"
  then have "i * b + j < i * b + b" by simp
  also have "\<dots> = Suc i * b" by simp
  also have "\<dots> \<le> a * b" using \<open>i < a\<close> by (intro mult_le_mono1) simp
  finally show ?thesis .
qed

lemma div_flat: "r < m \<Longrightarrow> (q * m + r) div m = (q::nat)"
  by simp

lemma mod_flat: "r < m \<Longrightarrow> (q * m + r) mod m = (r::nat)"
  by simp

lemma elem2: "shape t = [a, b] \<Longrightarrow> elem t [i, j] = data t ! (i * b + j)"
  by (simp add: elem_def)

subsection \<open>Shapes\<close>

lemma broadcast_rev_same: "broadcast_rev xs xs = Some xs"
  by (induction xs) simp_all

lemma broadcast_shape_same: "broadcast_shape xs xs = Some xs"
  by (simp add: broadcast_shape_def broadcast_rev_same)

lemma tf_sub_same_shape:
  assumes "shape a = sh" "shape b = sh" "tf_sub a b = Inr c"
  shows "shape c = sh"
  using assms by (auto simp: tf_sub_def tf_binop_def broadcast_shape_same)

lemma tf_reshape_shape: "tf_reshape t sh = Inr u \<Longrightarrow> shape u = sh"
  by (auto simp: tf_reshape_def split: if_splits)

lemma tf_reduce_axis0:
  assumes "shape t = [a, b]"
  shows "tf_reduce f t 0 = Inr (Tensor [b] [f [data t ! (j * b + q). j \<leftarrow> [0..<a]]. q \<leftarrow> [0..<b]])"
  using assms by (simp add: tf_reduce_def norm_axis_def)

lemma tf_reduce_axis1:
  assumes "shape t = [a, b]"
  shows "tf_reduce f t 1 = Inr (Tensor [a] [f [data t ! (p * b + j). j \<leftarrow> [0..<b]]. p \<leftarrow> [0..<a]])"
  using assms by (simp add: tf_reduce_def norm_axis_def)

subsection \<open>The log-sum-exp\<close>

lemma sum_list_exp_pos: "xs \<noteq> [] \<Longrightarrow> 0 < sum_list (map exp (xs :: real list))"
proof (induction xs)
  case Nil
  then show ?case by simp
next
  case (Cons a xs)
  have "0 \<le> sum_list (map exp xs)"
    by (rule sum_list_nonneg) auto
  moreover have "0 < exp a" by simp
  ultimately have "0 < exp a + sum_list (map exp xs)"
    by (simp add: add_pos_nonneg)
  then show ?case by simp
qed

lemma logsumexp_list_eq:
  assumes "xs \<noteq> []"
  shows "logsumexp_list xs = ln (sum_list (map exp xs))"
proof -
  define m where "m = max_list xs"
  have "sum_list (map (\<lambda>x. exp (x - m)) xs) = exp (- m) * sum_list (map exp xs)"
    by (simp add: sum_list_const_mult[symmetric] exp_diff exp_minus field_simps)
  moreover have "ln (exp (- m) * sum_list (map exp xs)) = - m + ln (sum_list (map exp xs))"
    using sum_list_exp_pos[OF assms] by (simp add: ln_mult)
  ultimately show ?thesis
    by (simp add: logsumexp_list_def m_def[symmetric])
qed



section \<open>Propagation visits the layers in order\<close>

lemma propagate_loop_chain:
  assumes "propagate_loop ls (ss, ms, cs, ks, ts) fc a sm r = Inr ((ss', ms', cs', ks', ts'), r')"
  shows "\<exists>outs rs. length outs = length ls \<and> length rs = Suc (length ls)
           \<and> rs ! 0 = r \<and> rs ! length ls = r'
           \<and> ss' = ss @ map fst outs
           \<and> ms' = ms @ map (fst \<circ> snd) outs
           \<and> cs' = cs @ map (fst \<circ> snd \<circ> snd) outs
           \<and> ks' = ks @ map (snd \<circ> snd \<circ> snd) outs
           \<and> ts' = ts @ map regularizer_type ls
           \<and> (\<forall>i<length ls. layer_propagate (ls ! i) ((last ss # map fst outs) ! i) fc a sm (rs ! i)
                  = Inr (outs ! i, rs ! Suc i))"
  using assms
proof (induction ls arbitrary: ss ms cs ks ts r)
  case Nil
  then show ?case
    by (intro exI[of _ "[]"] exI[of _ "[r]"]) simp
next
  case (Cons l ls)
  from Cons.prems obtain s m c k r1 where
    call: "layer_propagate l (last ss) fc a sm r = Inr ((s, m, c, k), r1)" and
    rest: "propagate_loop ls (ss @ [s], ms @ [m], cs @ [c], ks @ [k], ts @ [regularizer_type l]) fc a sm r1
             = Inr ((ss', ms', cs', ks', ts'), r')"
    by (auto split: sum.splits)
  from Cons.IH[OF rest] obtain outs rs where
    IH: "length outs = length ls" "length rs = Suc (length ls)" "rs ! 0 = r1" "rs ! length ls = r'"
      "ss' = (ss @ [s]) @ map fst outs" "ms' = (ms @ [m]) @ map (fst \<circ> snd) outs"
      "cs' = (cs @ [c]) @ map (fst \<circ> snd \<circ> snd) outs"
      "ks' = (ks @ [k]) @ map (snd \<circ> snd \<circ> snd) outs"
      "ts' = (ts @ [regularizer_type l]) @ map regularizer_type ls"
      "\<forall>i<length ls. layer_propagate (ls ! i) ((last (ss @ [s]) # map fst outs) ! i) fc a sm (rs ! i)
                  = Inr (outs ! i, rs ! Suc i)"
    by blast
  have step: "\<forall>i<length (l # ls).
      layer_propagate ((l # ls) ! i) ((last ss # map fst ((s, m, c, k) # outs)) ! i) fc a sm ((r # rs) ! i)
        = Inr (((s, m, c, k) # outs) ! i, (r # rs) ! Suc i)"
  proof (intro allI impI)
    fix i assume "i < length (l # ls)"
    show "layer_propagate ((l # ls) ! i) ((last ss # map fst ((s, m, c, k) # outs)) ! i) fc a sm ((r # rs) ! i)
        = Inr (((s, m, c, k) # outs) ! i, (r # rs) ! Suc i)"
    proof (cases i)
      case 0
      then show ?thesis using call IH(3) by simp
    next
      case (Suc j)
      with \<open>i < length (l # ls)\<close> have "j < length ls" by simp
      with IH(10) Suc show ?thesis by simp
    qed
  qed
  show ?case
    apply (intro exI[of _ "(s, m, c, k) # outs"] exI[of _ "r # rs"])
    using IH(1-9) step by simp
qed

lemma propagate_chain:
  assumes "propagate self X0 full_cov amort sampled r = Inr ((samples, means, covs, kls, kl_types), r')"
  shows "length samples = length (layers self) \<and> length means = length (layers self)
       \<and> length covs = length (layers self) \<and> length kls = length (layers self)
       \<and> kl_types = map regularizer_type (layers self)
       \<and> (\<exists>rs. length rs = Suc (length (layers self)) \<and> rs ! 0 = r \<and> rs ! length (layers self) = r'
            \<and> (\<forall>i<length (layers self).
                  layer_propagate (layers self ! i) ((X0 # samples) ! i) full_cov amort sampled (rs ! i)
                    = Inr ((samples ! i, means ! i, covs ! i, kls ! i), rs ! Suc i)))"
proof -
  from assms obtain ss where
    loop: "propagate_loop (layers self) ([X0], [], [], [], []) full_cov amort sampled r
             = Inr ((ss, means, covs, kls, kl_types), r')" and
    samples: "samples = drop 1 ss"
    by (auto simp: propagate_def bindE_eq_Inr)
  from propagate_loop_chain[OF loop] obtain outs rs where
    F: "length outs = length (layers self)" "length rs = Suc (length (layers self))"
      "rs ! 0 = r" "rs ! length (layers self) = r'"
      "ss = [X0] @ map fst outs" "means = [] @ map (fst \<circ> snd) outs"
      "covs = [] @ map (fst \<circ> snd \<circ> snd) outs"
      "kls = [] @ map (snd \<circ> snd \<circ> snd) outs"
      "kl_types = [] @ map regularizer_type (layers self)"
      "\<forall>i<length (layers self). layer_propagate (layers self ! i) ((last [X0] # map fst outs) ! i)
           full_cov amort sampled (rs ! i) = Inr (outs ! i, rs ! Suc i)"
    by blast
  have s: "samples = map fst outs" using samples F(5) by simp
  have outs: "\<forall>i<length (layers self). outs ! i = (samples ! i, means ! i, covs ! i, kls ! i)"
    using F(1) F(6-8) s by (simp add: prod_eq_iff)
  have "\<forall>i<length (layers self).
          layer_propagate (layers self ! i) ((X0 # samples) ! i) full_cov amort sampled (rs ! i)
            = Inr ((samples ! i, means ! i, covs ! i, kls ! i), rs ! Suc i)"
    using F(10) outs s by simp
  with F(1-4) F(6-9) s show ?thesis by auto
qed

lemma propagate_loop_total:
  assumes "\<forall>l \<in> set ls. \<forall>x r0. \<exists>out r1. layer_propagate l x fc a sm r0 = Inr (out, r1)"
  shows "\<exists>res r'. propagate_loop ls acc fc a sm r = Inr (res, r')"
  using assms
proof (induction ls arbitrary: acc r)
  case Nil
  show ?case by (cases acc) auto
next
  case (Cons l ls)
  obtain ss ms cs ks ts where acc: "acc = (ss, ms, cs, ks, ts)"
    by (cases acc)
  from Cons.prems obtain s m c k r1 where
    call: "layer_propagate l (last ss) fc a sm r = Inr ((s, m, c, k), r1)"
    by (metis list.set_intros(1) prod_cases4)
  from Cons.prems have "\<forall>l \<in> set ls. \<forall>x r0. \<exists>out r1. layer_propagate l x fc a sm r0 = Inr (out, r1)"
    by simp
  from Cons.IH[OF this] show ?case
    by (simp add: acc call)
qed

text \<open>
  C8: \<open>propagate\<close> returns whenever no layer raises, for every input and flag setting. When
  it returns, the five result lists have one entry per layer, in layer order, and the initial
  input is not among the samples. The source of randomness passes through the layers one
  after the other, once each: layer \<open>i\<close> receives the state \<open>rs ! i\<close> left by layer \<open>i - 1\<close>
  and, as input, the sample drawn by layer \<open>i - 1\<close> (the given input for the first layer),
  never a mean; the flags and the side information reach every layer unchanged.
\<close>

theorem propagate_each_layer_once_in_order:
  "((\<forall>l \<in> set (layers self). \<forall>x r0. \<exists>out r1.
        layer_propagate l x full_cov amort sampled r0 = Inr (out, r1))
     \<longrightarrow> (\<exists>res r'. propagate self X0 full_cov amort sampled r = Inr (res, r')))
 \<and> (propagate self X0 full_cov amort sampled r = Inr ((samples, means, covs, kls, kl_types), r')
     \<longrightarrow> length samples = length (layers self) \<and> length means = length (layers self)
       \<and> length covs = length (layers self) \<and> length kls = length (layers self)
       \<and> kl_types = map regularizer_type (layers self)
       \<and> (\<exists>rs. length rs = Suc (length (layers self)) \<and> rs ! 0 = r \<and> rs ! length (layers self) = r'
            \<and> (\<forall>i<length (layers self).
                  layer_propagate (layers self ! i) ((X0 # samples) ! i) full_cov amort sampled (rs ! i)
                    = Inr ((samples ! i, means ! i, covs ! i, kls ! i), rs ! Suc i))))"
proof (rule conjI)
  show "(\<forall>l \<in> set (layers self). \<forall>x r0. \<exists>out r1.
        layer_propagate l x full_cov amort sampled r0 = Inr (out, r1))
     \<longrightarrow> (\<exists>res r'. propagate self X0 full_cov amort sampled r = Inr (res, r'))"
  proof
    assume "\<forall>l \<in> set (layers self). \<forall>x r0. \<exists>out r1.
        layer_propagate l x full_cov amort sampled r0 = Inr (out, r1)"
    from propagate_loop_total[OF this, of "([X0], [], [], [], [])" r]
    show "\<exists>res r'. propagate self X0 full_cov amort sampled r = Inr (res, r')"
      by (auto simp: propagate_def)
  qed
next
  show "propagate self X0 full_cov amort sampled r = Inr ((samples, means, covs, kls, kl_types), r')
     \<longrightarrow> length samples = length (layers self) \<and> length means = length (layers self)
       \<and> length covs = length (layers self) \<and> length kls = length (layers self)
       \<and> kl_types = map regularizer_type (layers self)
       \<and> (\<exists>rs. length rs = Suc (length (layers self)) \<and> rs ! 0 = r \<and> rs ! length (layers self) = r'
            \<and> (\<forall>i<length (layers self).
                  layer_propagate (layers self ! i) ((X0 # samples) ! i) full_cov amort sampled (rs ! i)
                    = Inr ((samples ! i, means ! i, covs ! i, kls ! i), rs ! Suc i)))"
    by (rule impI) (rule propagate_chain)
qed

theorem propagate_each_layer_once_in_order_witness:
  "list_all (\<lambda>l. \<forall>x r0. \<exists>out r1. layer_propagate l x True None False r0 = Inr (out, r1))
     (layers two_layer_example)
   \<and> propagate two_layer_example example_batch True None False 0
     = Inr (([Tensor [1, 1] [1], Tensor [1, 1] [2]], [Tensor [1, 1] [3], Tensor [1, 1] [6]],
             [Tensor [1, 1] [4], Tensor [1, 1] [7]], [Tensor [] [5], Tensor [1, 1] [8]],
             [GLOBAL, LOCAL]), 2)
   \<and> length (layers two_layer_example) = 2
   \<and> (\<exists>rs. length rs = 3 \<and> rs ! 0 = 0 \<and> rs ! 2 = (2::nat)
        \<and> (\<forall>i<2. layer_propagate (layers two_layer_example ! i)
                     ([example_batch, Tensor [1, 1] [1], Tensor [1, 1] [2]] ! i) True None False (rs ! i)
                   = Inr (([Tensor [1, 1] [1], Tensor [1, 1] [2]] ! i,
                           [Tensor [1, 1] [3], Tensor [1, 1] [6]] ! i,
                           [Tensor [1, 1] [4], Tensor [1, 1] [7]] ! i,
                           [Tensor [] [5], Tensor [1, 1] [8]] ! i), rs ! Suc i)))"
proof -
  have t: "\<forall>l \<in> set (layers two_layer_example). \<forall>x r0. \<exists>out r1.
        layer_propagate l x True None False r0 = Inr (out, r1)"
    by (simp add: two_layer_example_def example_model_def const_layer_def)
  have ex: "\<exists>res r'. propagate two_layer_example example_batch True None False 0 = Inr (res, r')"
    using propagate_each_layer_once_in_order
      [THEN conjunct1, of two_layer_example True None False example_batch 0] t
    by simp
  have h: "propagate two_layer_example example_batch True None False 0
         = Inr (([Tensor [1, 1] [1], Tensor [1, 1] [2]], [Tensor [1, 1] [3], Tensor [1, 1] [6]],
                 [Tensor [1, 1] [4], Tensor [1, 1] [7]], [Tensor [] [5], Tensor [1, 1] [8]],
                 [GLOBAL, LOCAL]), 2)"
    by code_simp
  have n: "length (layers two_layer_example) = 2"
    by (simp add: two_layer_example_def example_model_def)
  show ?thesis
    using t ex h n propagate_each_layer_once_in_order[THEN conjunct2, rule_format, OF h]
    by (simp add: list_all_iff)
qed

section \<open>The objectives in stages\<close>

lemma DGP_VI_L_S_N_stages:
  "DGP_VI_build_likelihood self Xb Yb r =
     bindE (DGP_VI_L_S_N self Xb Yb r) (\<lambda>((L_S_N, N, global_kls), r').
     bindE (tf_reduce_mean L_S_N 0) (\<lambda>logp.
     bindE (tf_reduce_sum_list global_kls) (\<lambda>global_sum.
     bindE (tf_sub_float64 (tf_reduce_sum_all logp * (real (num_data self) / real N)) global_sum)
       (\<lambda>bound.
     if num_samples self = 0 \<or> N = 0 then Inl NonFinite
     else Inr (bound, r')))))"
  unfolding DGP_VI_build_likelihood_def DGP_VI_L_S_N_def DGP_VI_L_S_N_before_local_def
    VI_subtract_local_def kls_of_type_def
  by (auto simp: bindE_def Let_def split: sum.splits prod.splits)

lemma DGP_IWVI_L_NK_stages:
  "DGP_IWVI_build_likelihood self Xb Yb r =
     bindE (DGP_IWVI_L_NK self Xb Yb r) (\<lambda>((L_NK, global_kls), r').
     bindE (shape0 Xb) (\<lambda>N.
     bindE (tf_reduce_logsumexp L_NK 1) (\<lambda>lse.
     bindE (tf_reduce_sum_list global_kls) (\<lambda>global_sum.
     bindE (tf_sub_float64 (tf_reduce_sum_all (tf_sub_scalar lse (ln (real (num_samples self))))
                 * (real (num_data self) / real N)) global_sum) (\<lambda>bound.
     if num_samples self = 0 \<or> N = 0 then Inl NonFinite
     else Inr (bound, r'))))))"
  unfolding DGP_IWVI_build_likelihood_def DGP_IWVI_L_NK_def DGP_IWVI_L_NK_before_local_def
    IWVI_subtract_local_def kls_of_type_def
  by (auto simp: bindE_def Let_def split: sum.splits prod.splits)

lemma DGP_VI_L_S_N_elim:
  assumes "DGP_VI_L_S_N self Xb Yb r = Inr ((L, N, gk), r')"
  obtains L0 kls kl_types where
    "DGP_VI_L_S_N_before_local self Xb Yb r = Inr ((L0, N, kls, kl_types), r')"
    "VI_subtract_local [num_samples self, N] L0 (kls_of_type LOCAL kls kl_types) = Inr L"
    "gk = kls_of_type GLOBAL kls kl_types"
  using assms unfolding DGP_VI_L_S_N_def
  by (auto simp: bindE_eq_Inr split: prod.splits)

lemma DGP_IWVI_L_NK_elim:
  assumes "DGP_IWVI_L_NK self Xb Yb r = Inr ((L, gk), r')"
  obtains L0 kls kl_types where
    "DGP_IWVI_L_NK_before_local self Xb Yb r = Inr ((L0, kls, kl_types), r')"
    "IWVI_subtract_local L0 (kls_of_type LOCAL kls kl_types) = Inr L"
    "gk = kls_of_type GLOBAL kls kl_types"
  using assms unfolding DGP_IWVI_L_NK_def
  by (auto simp: bindE_eq_Inr split: prod.splits)

lemma VI_subtract_local_shape:
  assumes "VI_subtract_local sh L0 lk = Inr L" "shape L0 = sh"
  shows "shape L = sh"
proof (cases "length lk > 0")
  case True
  with assms(1) obtain t where "shape t = sh" "tf_sub L0 t = Inr L"
    by (auto simp: VI_subtract_local_def bindE_eq_Inr dest: tf_reshape_shape)
  with assms(2) show ?thesis using tf_sub_same_shape[of L0 sh t L] by simp
next
  case False
  with assms show ?thesis by (simp add: VI_subtract_local_def)
qed

lemma DGP_VI_L_S_N_before_local_shape:
  assumes "DGP_VI_L_S_N_before_local self Xb Yb r = Inr ((L0, N, kls, kl_types), r')"
  shows "shape L0 = [num_samples self, N]"
  using assms unfolding DGP_VI_L_S_N_before_local_def
  by (auto simp: bindE_eq_Inr dest: tf_reshape_shape split: prod.splits)

lemma DGP_VI_L_S_N_shape:
  assumes "DGP_VI_L_S_N self Xb Yb r = Inr ((L, N, gk), r')"
  shows "shape L = [num_samples self, N]"
  using assms
  by (elim DGP_VI_L_S_N_elim) (auto dest: DGP_VI_L_S_N_before_local_shape VI_subtract_local_shape)

lemma propagate_num_data [simp]: "propagate (self\<lparr>num_data := nd\<rparr>) = propagate self"
  by (simp add: propagate_def fun_eq_iff)

lemma DGP_VI_L_S_N_num_data [simp]:
  "DGP_VI_L_S_N (self\<lparr>num_data := nd\<rparr>) Xb Yb r = DGP_VI_L_S_N self Xb Yb r"
  by (simp add: DGP_VI_L_S_N_def DGP_VI_L_S_N_before_local_def)

lemma DGP_IWVI_L_NK_num_data [simp]:
  "DGP_IWVI_L_NK (self\<lparr>num_data := nd\<rparr>) Xb Yb r = DGP_IWVI_L_NK self Xb Yb r"
  by (simp add: DGP_IWVI_L_NK_def DGP_IWVI_L_NK_before_local_def)

text \<open>The value of the VI objective for any total data size \<open>nd\<close>, from the tensor \<open>L\<close> of
  lines 50-78.\<close>

lemma VI_bound_value:
  assumes L: "DGP_VI_L_S_N self Xb Yb r = Inr ((L, N, gk), r')"
    and G: "tf_reduce_sum_list gk = Inr (Float64, G)"
    and S: "1 \<le> num_samples self" and N: "1 \<le> N"
  shows "DGP_VI_build_likelihood (self\<lparr>num_data := nd\<rparr>) Xb Yb r =
           Inr ((\<Sum>n<N. (\<Sum>s<num_samples self. elem L [s, n]) / real (num_samples self))
                  * (real nd / real N) - G, r')"
proof -
  have sh: "shape L = [num_samples self, N]"
    using L by (rule DGP_VI_L_S_N_shape)
  have mean: "tf_reduce_mean L 0 =
      Inr (Tensor [N] [mean_list [data L ! (s * N + n). s \<leftarrow> [0..<num_samples self]]. n \<leftarrow> [0..<N]])"
    unfolding tf_reduce_mean_def using sh by (rule tf_reduce_axis0)
  have "tf_reduce_sum_all (Tensor [N] [mean_list [data L ! (s * N + n). s \<leftarrow> [0..<num_samples self]]. n \<leftarrow> [0..<N]])
      = (\<Sum>n<N. (\<Sum>s<num_samples self. elem L [s, n]) / real (num_samples self))"
    by (simp add: tf_reduce_sum_all_def mean_list_def sum_list_map_upt0 elem2[OF sh] comp_def)
  then show ?thesis
    using L G S N mean by (simp add: DGP_VI_L_S_N_stages)
qed

text \<open>The same for the IWVI objective, from the tensor \<open>L\<close> of lines 126-155.\<close>

lemma IWVI_bound_value:
  assumes L: "DGP_IWVI_L_NK self Xb Yb r = Inr ((L, gk), r')"
    and sh: "shape L = [N, num_samples self]"
    and X: "shape0 Xb = Inr N"
    and G: "tf_reduce_sum_list gk = Inr (Float64, G)"
    and K: "1 \<le> num_samples self" and N: "1 \<le> N"
  shows "DGP_IWVI_build_likelihood (self\<lparr>num_data := nd\<rparr>) Xb Yb r =
           Inr ((\<Sum>n<N. ln (\<Sum>k<num_samples self. exp (elem L [n, k])) - ln (real (num_samples self)))
                  * (real nd / real N) - G, r')"
proof -
  let ?K = "num_samples self"
  have lse: "tf_reduce_logsumexp L 1 =
      Inr (Tensor [N] [logsumexp_list [data L ! (n * ?K + k). k \<leftarrow> [0..<?K]]. n \<leftarrow> [0..<N]])"
    unfolding tf_reduce_logsumexp_def using sh by (rule tf_reduce_axis1)
  have row: "logsumexp_list [data L ! (n * ?K + k). k \<leftarrow> [0..<?K]]
               = ln (\<Sum>k<?K. exp (elem L [n, k]))" for n
  proof -
    have "[data L ! (n * ?K + k). k \<leftarrow> [0..<?K]] \<noteq> []" using K by simp
    then show ?thesis
      by (simp add: logsumexp_list_eq sum_list_map_upt0 elem2[OF sh] comp_def)
  qed
  have "tf_reduce_sum_all (tf_sub_scalar
          (Tensor [N] [logsumexp_list [data L ! (n * ?K + k). k \<leftarrow> [0..<?K]]. n \<leftarrow> [0..<N]])
          (ln (real ?K)))
      = (\<Sum>n<N. ln (\<Sum>k<?K. exp (elem L [n, k])) - ln (real ?K))"
    by (simp add: tf_reduce_sum_all_def tf_sub_scalar_def sum_list_map_upt0 row comp_def)
  then show ?thesis
    using L X G K N lse by (simp add: DGP_IWVI_L_NK_stages)
qed

section \<open>The reductions over the sample axis\<close>

text \<open>
  C1: for a sample count \<open>S \<ge> 1\<close>, the tensor \<open>L\<close> that \<^verbatim>\<open>DGP_VI._build_likelihood\<close> has built
  by line 78 has shape \<open>(S, N)\<close>, and the objective is the sum over the \<open>N\<close> data points of the
  arithmetic mean over the sample axis of the entries \<open>L[s, n]\<close> (an average of logs: no
  logarithm or exponential is applied), scaled by \<open>num_data / N\<close>, minus the summed global
  regularizers.
\<close>

theorem vi_reduces_by_average_of_logs:
  assumes "DGP_VI_L_S_N self Xb Yb r = Inr ((L, N, gk), r')"
    and "tf_reduce_sum_list gk = Inr (Float64, G)"
    and "1 \<le> num_samples self" and "1 \<le> N"
  shows "shape L = [num_samples self, N] \<and>
         DGP_VI_build_likelihood self Xb Yb r =
           Inr ((\<Sum>n<N. (\<Sum>s<num_samples self. elem L [s, n]) / real (num_samples self))
                  * (real (num_data self) / real N) - G, r')"
  using VI_bound_value[OF assms, of "num_data self"] DGP_VI_L_S_N_shape[OF assms(1)] by simp

theorem vi_reduces_by_average_of_logs_witness:
  "DGP_VI_L_S_N vi_example example_batch example_batch 0
     = Inr ((Tensor [2, 1] [0, 2], 1, [Tensor [] [0]]), 1)
   \<and> tf_reduce_sum_list [Tensor [] [0]] = Inr (Float64, 0)
   \<and> 1 \<le> num_samples vi_example
   \<and> DGP_VI_build_likelihood vi_example example_batch example_batch 0 = Inr ((0 + 2) / 2, 1)"
proof -
  have L: "DGP_VI_L_S_N vi_example example_batch example_batch 0
     = Inr ((Tensor [2, 1] [0, 2], 1, [Tensor [] [0]]), 1)"
    by code_simp
  have G: "tf_reduce_sum_list [Tensor [] [0]] = Inr (Float64, 0)"
    by code_simp
  have S: "1 \<le> num_samples vi_example" and S2: "num_samples vi_example = 2"
    and nd: "num_data vi_example = 1"
    by (simp_all add: vi_example_def example_model_def)
  have N: "(1::nat) \<le> 1" by simp
  show ?thesis
    using L G S vi_reduces_by_average_of_logs[OF L G S N]
    by (simp add: S2 nd elem_def lessThan_Suc numeral_2_eq_2)
qed



section \<open>An average of logs, not a log of an average\<close>

lemma log_of_average_0_2: "ln ((exp 0 + exp 2) / 2) \<noteq> (1::real)"
proof
  assume eq: "ln ((exp 0 + exp 2) / 2) = (1::real)"
  have pos: "0 < (exp 0 + exp (2::real)) / 2"
    by (simp add: add_pos_pos)
  have "exp (ln ((exp 0 + exp 2) / 2)) = (exp 0 + exp (2::real)) / 2"
    using pos by (rule exp_ln)
  with eq have e: "exp (1::real) = (exp 0 + exp 2) / 2" by simp
  have "exp (2::real) = exp 1 * exp 1"
    by (simp add: exp_add[symmetric])
  with e have "(exp (1::real) - 1) * (exp 1 - 1) = 0"
    by (simp add: algebra_simps)
  then have "exp (1::real) = 1" by simp
  then show False by simp
qed

text \<open>
  C3, as the overview words it, fails: with one data point and the two sample log-densities
  0 and 2 the VI objective is their mean 1, while the logarithm of the averaged densities is
  \<open>ln ((exp 0 + exp 2) / 2)\<close> and the logarithm of the averaged entries is 0, both
  different numbers.
\<close>

theorem vi_is_not_log_of_average_counterexample:
  "DGP_VI_build_likelihood vi_example example_batch example_batch 0 = Inr (1, 1)
   \<and> VI_bound_with_reduction log_of_average vi_example example_batch example_batch 0
        = Inr (ln ((exp 0 + exp 2) / 2), 1)
   \<and> VI_bound_with_reduction log_of_average_entries vi_example example_batch example_batch 0
        = Inr (0, 1)
   \<and> DGP_VI_build_likelihood vi_example example_batch example_batch 0
        \<noteq> VI_bound_with_reduction log_of_average vi_example example_batch example_batch 0
   \<and> DGP_VI_build_likelihood vi_example example_batch example_batch 0
        \<noteq> VI_bound_with_reduction log_of_average_entries vi_example example_batch example_batch 0"
proof -
  have L: "DGP_VI_L_S_N vi_example example_batch example_batch 0
     = Inr ((Tensor [2, 1] [0, 2], 1, [Tensor [] [0]]), 1)"
    by code_simp
  have S2: "num_samples vi_example = 2" and nd: "num_data vi_example = 1"
    by (simp_all add: vi_example_def example_model_def)
  have upt2: "[0..<2] = [0, Suc 0]"
    by (simp add: numeral_2_eq_2)
  have G: "tf_reduce_sum_list [Tensor [] [0]] = Inr (Float64, 0)"
    by code_simp
  have vi: "DGP_VI_build_likelihood vi_example example_batch example_batch 0 = Inr (1, 1)"
    by (simp add: DGP_VI_L_S_N_stages L G S2 nd tf_reduce_mean_def tf_reduce_axis0 mean_list_def
        tf_reduce_sum_all_def upt2)
  have loa: "VI_bound_with_reduction log_of_average vi_example example_batch example_batch 0
        = Inr (ln ((exp 0 + exp 2) / 2), 1)"
    by (simp add: VI_bound_with_reduction_def L G S2 nd tf_reduce_axis0 log_of_average_def
        mean_list_def tf_reduce_sum_all_def upt2)
  have loe: "VI_bound_with_reduction log_of_average_entries vi_example example_batch example_batch 0
        = Inr (0, 1)"
    by (simp add: VI_bound_with_reduction_def L G S2 nd tf_reduce_axis0 log_of_average_entries_def
        mean_list_def tf_reduce_sum_all_def upt2)
  show ?thesis
    using vi loa loe log_of_average_0_2 by simp
qed

text \<open>
  C3, amended: the VI reduction over the sample axis is an average of logs. The objective is
  the arithmetic mean over the \<open>S\<close> samples of the per-sample sums of log-densities (scaled,
  minus the global regularizers); no logarithm is taken after the averaging.
\<close>

theorem vi_bound_is_mean_of_per_sample_sums:
  assumes "DGP_VI_L_S_N self Xb Yb r = Inr ((L, N, gk), r')"
    and "tf_reduce_sum_list gk = Inr (Float64, G)"
    and "1 \<le> num_samples self" and "1 \<le> N"
  shows "DGP_VI_build_likelihood self Xb Yb r =
           Inr ((\<Sum>s<num_samples self. (\<Sum>n<N. elem L [s, n])) / real (num_samples self)
                  * (real (num_data self) / real N) - G, r')"
proof -
  have "(\<Sum>n<N. (\<Sum>s<num_samples self. elem L [s, n]) / real (num_samples self))
      = (\<Sum>s<num_samples self. (\<Sum>n<N. elem L [s, n])) / real (num_samples self)"
    by (subst sum.swap) (simp add: sum_divide_distrib)
  then show ?thesis
    using VI_bound_value[OF assms, of "num_data self"] by simp
qed

theorem vi_bound_is_mean_of_per_sample_sums_witness:
  "DGP_VI_L_S_N vi_both_example example_batch example_batch 0
     = Inr ((Tensor [2, 1] [- 1, 1], 1, [Tensor [] [3]]), 2)
   \<and> tf_reduce_sum_list [Tensor [] [3]] = Inr (Float64, 3)
   \<and> 1 \<le> num_samples vi_both_example
   \<and> DGP_VI_build_likelihood vi_both_example example_batch example_batch 0
        = Inr ((- 1 + 1) / 2 - 3, 2)"
proof -
  have L: "DGP_VI_L_S_N vi_both_example example_batch example_batch 0
     = Inr ((Tensor [2, 1] [- 1, 1], 1, [Tensor [] [3]]), 2)"
    by code_simp
  have G: "tf_reduce_sum_list [Tensor [] [3]] = Inr (Float64, 3)"
    by code_simp
  have S: "1 \<le> num_samples vi_both_example" and S2: "num_samples vi_both_example = 2"
    and nd: "num_data vi_both_example = 1"
    by (simp_all add: vi_both_example_def example_model_def)
  have N: "(1::nat) \<le> 1" by simp
  show ?thesis
    using L G S vi_bound_is_mean_of_per_sample_sums[OF L G S N]
    by (simp add: S2 nd elem_def lessThan_Suc numeral_2_eq_2)
qed

section \<open>Tiling and flags of the two objectives\<close>

lemma tile_rows:
  assumes sh: "shape t = [N, D]"
  shows "\<exists>T. tf_tile t [S, 1] = Inr T \<and> shape T = [S * N, D]
           \<and> (\<forall>s<S. \<forall>n<N. \<forall>d<D. elem T [s * N + n, d] = elem t [n, d])"
proof -
  define T where "T = Tensor [S * N, D]
     [data t ! ravel [N, D] (map2 (\<lambda>i n. i mod n) (unravel [S * N, D] k) [N, D]). k \<leftarrow> [0..<S * N * D]]"
  have tile: "tf_tile t [S, 1] = Inr T"
    by (simp add: tf_tile_def sh T_def mult.commute)
  have "elem T [s * N + n, d] = elem t [n, d]" if "s < S" "n < N" "d < D" for s n d
  proof -
    have "s * N + n < S * N" using that by (intro flat2_less)
    then have k: "(s * N + n) * D + d < S * N * D" using that by (intro flat2_less)
    show ?thesis
      using that k by (simp add: elem_def T_def sh)
  qed
  with tile show ?thesis by (auto simp: T_def)
qed

lemma tile_banks:
  assumes sh: "shape t = [N, D]"
  shows "\<exists>T1 T. tf_newaxis t 1 2 = Inr T1 \<and> tf_tile T1 [1, K, 1] = Inr T \<and> shape T = [N, K, D]
           \<and> (\<forall>n<N. \<forall>k<K. \<forall>d<D. elem T [n, k, d] = elem t [n, d])"
proof -
  define T1 where "T1 = Tensor [N, 1, D] (data t)"
  define T where "T = Tensor [N, K, D]
     [data t ! ravel [N, 1, D] (map2 (\<lambda>i n. i mod n) (unravel [N, K, D] j) [N, 1, D]). j \<leftarrow> [0..<N * K * D]]"
  have new: "tf_newaxis t 1 2 = Inr T1"
    by (simp add: tf_newaxis_def sh T1_def)
  have tile: "tf_tile T1 [1, K, 1] = Inr T"
    by (simp add: tf_tile_def T1_def T_def mult.assoc)
  have "elem T [n, k, d] = elem t [n, d]" if "n < N" "k < K" "d < D" for n k d
  proof -
    have kd: "k * D + d < K * D" using that by (intro flat2_less)
    then have j: "n * (K * D) + (k * D + d) < N * (K * D)" using that by (intro flat2_less)
    have "(n * (K * D) + (k * D + d)) div (K * D) = n" using kd by (rule div_flat)
    moreover have "(n * (K * D) + (k * D + d)) mod (K * D) = k * D + d" using kd by (rule mod_flat)
    moreover have "(k * D + d) mod D = d" using that by simp
    ultimately show ?thesis
      using that j by (simp add: elem_def T_def sh mult.assoc add.assoc)
  qed
  with new tile show ?thesis by (auto simp: T_def)
qed

lemma force_flags_simps [simp]:
  "layer_propagate (force_flags fc sm l) x fc' a sm' r = layer_propagate l x fc a sm r"
  "regularizer_type (force_flags fc sm l) = regularizer_type l"
  by (simp_all add: force_flags_def)

lemma propagate_loop_force_flags:
  "propagate_loop (map (force_flags fc sm) ls) acc fc a sm r = propagate_loop ls acc fc a sm r"
proof (induction ls arbitrary: acc r)
  case Nil
  show ?case by simp
next
  case (Cons l ls)
  obtain ss ms cs ks ts where acc: "acc = (ss, ms, cs, ks, ts)"
    by (cases acc)
  show ?case
    by (simp add: acc Cons.IH split: sum.splits prod.splits)
qed

lemma propagate_force_flags:
  "propagate (self\<lparr>layers := map (force_flags fc sm) (layers self)\<rparr>) X0 fc a sm r
     = propagate self X0 fc a sm r"
  by (simp add: propagate_def propagate_loop_force_flags)

lemma DGP_VI_force_flags:
  "DGP_VI_build_likelihood (self\<lparr>layers := map (force_flags False False) (layers self)\<rparr>) Xb Yb r
     = DGP_VI_build_likelihood self Xb Yb r"
  by (simp add: DGP_VI_build_likelihood_def propagate_force_flags)

lemma DGP_IWVI_force_flags:
  "DGP_IWVI_build_likelihood (self\<lparr>layers := map (force_flags True True) (layers self)\<rparr>) Xb Yb r
     = DGP_IWVI_build_likelihood self Xb Yb r"
  by (simp add: DGP_IWVI_build_likelihood_def propagate_force_flags)

lemma DGP_VI_build_calls_propagate:
  assumes "DGP_VI_build_likelihood self Xb Yb r = Inr (v, r')"
  shows "\<exists>X_tiled Y_tiled XY res.
           tf_tile Xb [num_samples self, 1] = Inr X_tiled
         \<and> tf_tile Yb [num_samples self, 1] = Inr Y_tiled
         \<and> tf_concat_last [X_tiled, Y_tiled] = Inr XY
         \<and> propagate self X_tiled False (Some XY) False r = Inr (res, r')"
  using assms unfolding DGP_VI_build_likelihood_def Let_def
  by (auto simp: bindE_eq_Inr split: prod.splits if_splits)

lemma DGP_IWVI_build_calls_propagate:
  assumes "DGP_IWVI_build_likelihood self Xb Yb r = Inr (v, r')"
  shows "\<exists>X1 X_tiled Y1 Y_tiled XY res.
           tf_newaxis Xb 1 2 = Inr X1 \<and> tf_tile X1 [1, num_samples self, 1] = Inr X_tiled
         \<and> tf_newaxis Yb 1 2 = Inr Y1 \<and> tf_tile Y1 [1, num_samples self, 1] = Inr Y_tiled
         \<and> tf_concat_last [X_tiled, Y_tiled] = Inr XY
         \<and> propagate self X_tiled True (Some XY) True r = Inr (res, r')"
  using assms unfolding DGP_IWVI_build_likelihood_def Let_def
  by (auto simp: bindE_eq_Inr split: prod.splits if_splits)

text \<open>The flags matter: with a layer whose mean depends on them, each objective has the value
  of the flags it passes, and another value when the layers are handed the opposite flags.\<close>

lemma flags_matter_example:
  "DGP_VI_build_likelihood vi_flag_example example_batch example_batch 0 = Inr (1, 1)
   \<and> DGP_VI_build_likelihood
        (vi_flag_example\<lparr>layers := map (force_flags True True) (layers vi_flag_example)\<rparr>)
        example_batch example_batch 0 = Inr (6, 1)
   \<and> DGP_IWVI_build_likelihood iwvi_flag_example example_batch example_batch 0 = Inr (3, 1)
   \<and> DGP_IWVI_build_likelihood
        (iwvi_flag_example\<lparr>layers := map (force_flags False False) (layers iwvi_flag_example)\<rparr>)
        example_batch example_batch 0 = Inr (5, 1)"
proof -
  let ?vi' = "vi_flag_example\<lparr>layers := map (force_flags True True) (layers vi_flag_example)\<rparr>"
  let ?iw' = "iwvi_flag_example\<lparr>layers := map (force_flags False False) (layers iwvi_flag_example)\<rparr>"
  have idem: "m\<lparr>num_data := num_data m\<rparr> = m" for m :: "nat model"
    by simp
  have G: "tf_reduce_sum_list [Tensor [] [0]] = Inr (Float64, 0)"
    by code_simp
  have X: "shape0 example_batch = Inr 1"
    by code_simp
  have S: "num_samples vi_flag_example = 2" "num_data vi_flag_example = 1"
    "num_samples ?vi' = 2" "num_data ?vi' = 1"
    "num_samples iwvi_flag_example = 1" "num_data iwvi_flag_example = 1"
    "num_samples ?iw' = 1" "num_data ?iw' = 1"
    by (simp_all add: vi_flag_example_def iwvi_flag_example_def example_model_def)
  have L1: "DGP_VI_L_S_N vi_flag_example example_batch example_batch 0
     = Inr ((Tensor [2, 1] [0, 2], 1, [Tensor [] [0]]), 1)"
    by code_simp
  have L2: "DGP_VI_L_S_N ?vi' example_batch example_batch 0
     = Inr ((Tensor [2, 1] [5, 7], 1, [Tensor [] [0]]), 1)"
    by code_simp
  have L3: "DGP_IWVI_L_NK iwvi_flag_example example_batch example_batch 0
     = Inr ((Tensor [1, 1] [3], [Tensor [] [0]]), 1)"
    by code_simp
  have L4: "DGP_IWVI_L_NK ?iw' example_batch example_batch 0
     = Inr ((Tensor [1, 1] [5], [Tensor [] [0]]), 1)"
    by code_simp
  have v1: "DGP_VI_build_likelihood vi_flag_example example_batch example_batch 0 = Inr (1, 1)"
    using VI_bound_value[OF L1 G, of "num_data vi_flag_example"] unfolding idem
    by (simp add: S elem_def lessThan_Suc numeral_2_eq_2)
  have v2: "DGP_VI_build_likelihood ?vi' example_batch example_batch 0 = Inr (6, 1)"
    using VI_bound_value[OF L2 G, of "num_data ?vi'"] unfolding idem
    by (simp add: S elem_def lessThan_Suc numeral_2_eq_2)
  have v3: "DGP_IWVI_build_likelihood iwvi_flag_example example_batch example_batch 0 = Inr (3, 1)"
    using IWVI_bound_value[OF L3 _ X G, of "num_data iwvi_flag_example"] unfolding idem
    by (simp add: S elem_def)
  have v4: "DGP_IWVI_build_likelihood ?iw' example_batch example_batch 0 = Inr (5, 1)"
    using IWVI_bound_value[OF L4 _ X G, of "num_data ?iw'"] unfolding idem
    by (simp add: S elem_def)
  from v1 v2 v3 v4 show ?thesis by simp
qed

text \<open>
  C4: for a batch \<open>X\<close> of shape \<open>(N, Dx)\<close> and \<open>Y\<close> of shape \<open>(N, Dy)\<close>, the VI objective's
  tiling (lines 50-51) succeeds with shapes \<open>(S*N, Dx)\<close> and \<open>(S*N, Dy)\<close>, row \<open>s*N + n\<close>
  being row \<open>n\<close> of the batch for every sample index \<open>s\<close> and data index \<open>n\<close>; the IWVI
  objective's tiling (lines 126-127) succeeds with shapes \<open>(N, K, Dx)\<close> and \<open>(N, K, Dy)\<close>,
  entry \<open>[n, k, :]\<close> being row \<open>n\<close>. The VI objective propagates the tiled \<open>X\<close> with
  \<open>full_cov = False\<close> and \<open>is_sampled_local_regularizer = False\<close>: a value it returns comes
  with the state of randomness that this call of \<open>propagate\<close> leaves, and the objective is
  unchanged when every layer is replaced by one that is always handed these two flags. The
  IWVI objective does the same with \<open>True\<close> and \<open>True\<close>.
\<close>

theorem tilings_and_flags_of_the_two_objectives:
  assumes "shape Xb = [N, Dx]" and "shape Yb = [N, Dy]"
  shows "(\<exists>X_tiled Y_tiled.
            tf_tile Xb [num_samples self, 1] = Inr X_tiled \<and> shape X_tiled = [num_samples self * N, Dx]
          \<and> tf_tile Yb [num_samples self, 1] = Inr Y_tiled \<and> shape Y_tiled = [num_samples self * N, Dy]
          \<and> (\<forall>s<num_samples self. \<forall>n<N.
                (\<forall>d<Dx. elem X_tiled [s * N + n, d] = elem Xb [n, d])
              \<and> (\<forall>d<Dy. elem Y_tiled [s * N + n, d] = elem Yb [n, d])))
       \<and> (DGP_VI_build_likelihood self Xb Yb r = Inr (v, r') \<longrightarrow>
            (\<exists>X_tiled Y_tiled XY res.
               tf_tile Xb [num_samples self, 1] = Inr X_tiled
             \<and> tf_tile Yb [num_samples self, 1] = Inr Y_tiled
             \<and> tf_concat_last [X_tiled, Y_tiled] = Inr XY
             \<and> propagate self X_tiled False (Some XY) False r = Inr (res, r')))
       \<and> DGP_VI_build_likelihood (self\<lparr>layers := map (force_flags False False) (layers self)\<rparr>) Xb Yb r
           = DGP_VI_build_likelihood self Xb Yb r
       \<and> (\<exists>X1 X_tiled Y1 Y_tiled.
            tf_newaxis Xb 1 2 = Inr X1 \<and> tf_tile X1 [1, num_samples self, 1] = Inr X_tiled
          \<and> shape X_tiled = [N, num_samples self, Dx]
          \<and> tf_newaxis Yb 1 2 = Inr Y1 \<and> tf_tile Y1 [1, num_samples self, 1] = Inr Y_tiled
          \<and> shape Y_tiled = [N, num_samples self, Dy]
          \<and> (\<forall>n<N. \<forall>k<num_samples self.
                (\<forall>d<Dx. elem X_tiled [n, k, d] = elem Xb [n, d])
              \<and> (\<forall>d<Dy. elem Y_tiled [n, k, d] = elem Yb [n, d])))
       \<and> (DGP_IWVI_build_likelihood self Xb Yb r = Inr (v, r') \<longrightarrow>
            (\<exists>X1 X_tiled Y1 Y_tiled XY res.
               tf_newaxis Xb 1 2 = Inr X1 \<and> tf_tile X1 [1, num_samples self, 1] = Inr X_tiled
             \<and> tf_newaxis Yb 1 2 = Inr Y1 \<and> tf_tile Y1 [1, num_samples self, 1] = Inr Y_tiled
             \<and> tf_concat_last [X_tiled, Y_tiled] = Inr XY
             \<and> propagate self X_tiled True (Some XY) True r = Inr (res, r')))
       \<and> DGP_IWVI_build_likelihood (self\<lparr>layers := map (force_flags True True) (layers self)\<rparr>) Xb Yb r
           = DGP_IWVI_build_likelihood self Xb Yb r"
proof -
  from tile_rows[OF assms(1), of "num_samples self"] tile_rows[OF assms(2), of "num_samples self"]
  have vi: "\<exists>X_tiled Y_tiled.
            tf_tile Xb [num_samples self, 1] = Inr X_tiled \<and> shape X_tiled = [num_samples self * N, Dx]
          \<and> tf_tile Yb [num_samples self, 1] = Inr Y_tiled \<and> shape Y_tiled = [num_samples self * N, Dy]
          \<and> (\<forall>s<num_samples self. \<forall>n<N.
                (\<forall>d<Dx. elem X_tiled [s * N + n, d] = elem Xb [n, d])
              \<and> (\<forall>d<Dy. elem Y_tiled [s * N + n, d] = elem Yb [n, d]))"
    by blast
  from tile_banks[OF assms(1), of "num_samples self"] tile_banks[OF assms(2), of "num_samples self"]
  have iwvi: "\<exists>X1 X_tiled Y1 Y_tiled.
            tf_newaxis Xb 1 2 = Inr X1 \<and> tf_tile X1 [1, num_samples self, 1] = Inr X_tiled
          \<and> shape X_tiled = [N, num_samples self, Dx]
          \<and> tf_newaxis Yb 1 2 = Inr Y1 \<and> tf_tile Y1 [1, num_samples self, 1] = Inr Y_tiled
          \<and> shape Y_tiled = [N, num_samples self, Dy]
          \<and> (\<forall>n<N. \<forall>k<num_samples self.
                (\<forall>d<Dx. elem X_tiled [n, k, d] = elem Xb [n, d])
              \<and> (\<forall>d<Dy. elem Y_tiled [n, k, d] = elem Yb [n, d]))"
    by blast
  have vi_call: "DGP_VI_build_likelihood self Xb Yb r = Inr (v, r') \<longrightarrow>
            (\<exists>X_tiled Y_tiled XY res.
               tf_tile Xb [num_samples self, 1] = Inr X_tiled
             \<and> tf_tile Yb [num_samples self, 1] = Inr Y_tiled
             \<and> tf_concat_last [X_tiled, Y_tiled] = Inr XY
             \<and> propagate self X_tiled False (Some XY) False r = Inr (res, r'))"
    by (rule impI) (rule DGP_VI_build_calls_propagate)
  have iwvi_call: "DGP_IWVI_build_likelihood self Xb Yb r = Inr (v, r') \<longrightarrow>
            (\<exists>X1 X_tiled Y1 Y_tiled XY res.
               tf_newaxis Xb 1 2 = Inr X1 \<and> tf_tile X1 [1, num_samples self, 1] = Inr X_tiled
             \<and> tf_newaxis Yb 1 2 = Inr Y1 \<and> tf_tile Y1 [1, num_samples self, 1] = Inr Y_tiled
             \<and> tf_concat_last [X_tiled, Y_tiled] = Inr XY
             \<and> propagate self X_tiled True (Some XY) True r = Inr (res, r'))"
    by (rule impI) (rule DGP_IWVI_build_calls_propagate)
  show ?thesis
    using vi vi_call iwvi iwvi_call
      DGP_VI_force_flags[of self Xb Yb r] DGP_IWVI_force_flags[of self Xb Yb r]
    by (intro conjI)
qed

theorem tilings_and_flags_of_the_two_objectives_witness:
  "shape two_point_batch = [2, 1] \<and> shape example_batch = [1, 1]
   \<and> tf_tile two_point_batch [num_samples vi_example, 1] = Inr (Tensor [4, 1] [10, 20, 10, 20])
   \<and> bindE (tf_newaxis two_point_batch 1 2) (\<lambda>X1. tf_tile X1 [1, num_samples iwvi_example, 1])
        = Inr (Tensor [2, 2, 1] [10, 10, 20, 20])
   \<and> DGP_VI_build_likelihood (vi_example\<lparr>layers := map (force_flags False False) (layers vi_example)\<rparr>)
        two_point_batch two_point_batch 0
        = DGP_VI_build_likelihood vi_example two_point_batch two_point_batch 0
   \<and> DGP_IWVI_build_likelihood (iwvi_example\<lparr>layers := map (force_flags True True) (layers iwvi_example)\<rparr>)
        two_point_batch two_point_batch 0
        = DGP_IWVI_build_likelihood iwvi_example two_point_batch two_point_batch 0
   \<and> DGP_VI_build_likelihood vi_example example_batch example_batch 0 = Inr (1, 1)
   \<and> (\<exists>res. propagate vi_example (Tensor [2, 1] [0, 0]) False (Some (Tensor [2, 2] [0, 0, 0, 0])) False 0
              = Inr (res, 1))
   \<and> DGP_IWVI_build_likelihood iwvi_example example_batch example_batch 0
        = Inr (ln (exp 0 + exp 2) - ln 2, 1)
   \<and> (\<exists>res. propagate iwvi_example (Tensor [1, 2, 1] [0, 0]) True (Some (Tensor [1, 2, 2] [0, 0, 0, 0])) True 0
              = Inr (res, 1))"
proof -
  have sh: "shape two_point_batch = [2, 1]"
    by (simp add: two_point_batch_def)
  have sh1: "shape example_batch = [1, 1]"
    by (simp add: example_batch_def)
  have t1: "tf_tile two_point_batch [num_samples vi_example, 1] = Inr (Tensor [4, 1] [10, 20, 10, 20])"
    by code_simp
  have t2: "bindE (tf_newaxis two_point_batch 1 2) (\<lambda>X1. tf_tile X1 [1, num_samples iwvi_example, 1])
        = Inr (Tensor [2, 2, 1] [10, 10, 20, 20])"
    by code_simp
  have S: "num_samples vi_example = 2" "num_data vi_example = 1"
    "num_samples iwvi_example = 2" "num_data iwvi_example = 1"
    by (simp_all add: vi_example_def iwvi_example_def example_model_def)
  have idem: "m\<lparr>num_data := num_data m\<rparr> = m" for m :: "nat model"
    by simp
  have G: "tf_reduce_sum_list [Tensor [] [0]] = Inr (Float64, 0)"
    by code_simp
  have L: "DGP_VI_L_S_N vi_example example_batch example_batch 0
     = Inr ((Tensor [2, 1] [0, 2], 1, [Tensor [] [0]]), 1)"
    by code_simp
  have v: "DGP_VI_build_likelihood vi_example example_batch example_batch 0 = Inr (1, 1)"
    using VI_bound_value[OF L G, of "num_data vi_example"] unfolding idem
    by (simp add: S elem_def lessThan_Suc numeral_2_eq_2)
  have L': "DGP_IWVI_L_NK iwvi_example example_batch example_batch 0
     = Inr ((Tensor [1, 2] [0, 2], [Tensor [] [0]]), 1)"
    by code_simp
  have X: "shape0 example_batch = Inr 1"
    by code_simp
  have w: "DGP_IWVI_build_likelihood iwvi_example example_batch example_batch 0
        = Inr (ln (exp 0 + exp 2) - ln 2, 1)"
    using IWVI_bound_value[OF L' _ X G, of "num_data iwvi_example"] unfolding idem
    by (simp add: S elem_def lessThan_Suc numeral_2_eq_2 add.commute)
  have x1: "tf_tile example_batch [num_samples vi_example, 1] = Inr (Tensor [2, 1] [0, 0])"
    by code_simp
  have xy1: "tf_concat_last [Tensor [2, 1] [0, 0], Tensor [2, 1] [0, 0]] = Inr (Tensor [2, 2] [0, 0, 0, 0])"
    by code_simp
  have x2: "tf_newaxis example_batch 1 2 = Inr (Tensor [1, 1, 1] [0])"
    "tf_tile (Tensor [1, 1, 1] [0]) [1, num_samples iwvi_example, 1] = Inr (Tensor [1, 2, 1] [0, 0])"
    by code_simp+
  have xy2: "tf_concat_last [Tensor [1, 2, 1] [0, 0], Tensor [1, 2, 1] [0, 0]]
               = Inr (Tensor [1, 2, 2] [0, 0, 0, 0])"
    by code_simp
  have p1: "\<exists>res. propagate vi_example (Tensor [2, 1] [0, 0]) False (Some (Tensor [2, 2] [0, 0, 0, 0])) False 0
              = Inr (res, 1)"
    using tilings_and_flags_of_the_two_objectives[OF sh1 sh1, of vi_example 0 1 1] v x1 xy1
    by auto
  have p2: "\<exists>res. propagate iwvi_example (Tensor [1, 2, 1] [0, 0]) True (Some (Tensor [1, 2, 2] [0, 0, 0, 0])) True 0
              = Inr (res, 1)"
    using tilings_and_flags_of_the_two_objectives
        [OF sh1 sh1, of iwvi_example 0 "ln (exp 0 + exp 2) - ln 2" 1] w x2 xy2
    by auto
  show ?thesis
    using sh sh1 t1 t2 v w p1 p2
      tilings_and_flags_of_the_two_objectives[OF sh sh, of vi_example 0]
      tilings_and_flags_of_the_two_objectives[OF sh sh, of iwvi_example 0]
    by simp
qed

section \<open>The minibatch scale\<close>

lemma tf_reduce_sum_list_value:
  assumes "gk \<noteq> []" and "\<forall>u \<in> set gk. shape u = shape (hd gk)"
  shows "tf_reduce_sum_list gk = Inr (Float64, \<Sum>u\<leftarrow>gk. sum_list (data u))"
proof -
  from assms(1) obtain t us where gk: "gk = t # us" by (cases gk) auto
  have "tf_reduce_sum_all = (\<lambda>u. sum_list (data u))"
    by (rule ext) (simp add: tf_reduce_sum_all_def)
  then show ?thesis
    using assms(2) unfolding gk by (simp add: tf_reduce_sum_list_def)
qed

lemma ln_twice_exp: "ln (2 * exp a) = a + ln (2::real)"
  by (simp add: ln_mult)

text \<open>
  C5: in both objectives, with the tensor \<open>L\<close> and the global regularizers of one run held
  fixed, the objective for a total data size \<open>nd\<close> is the summed per-point term times
  \<open>nd / N\<close>, minus the sum of all entries of the global regularizers: only the data term
  carries the factor \<open>num_data / N\<close>, the global sum is subtracted once and unscaled. With
  \<open>2 * nd\<close> in the place of \<open>nd\<close> the data term is doubled and the global sum is the same.
\<close>

theorem only_the_data_term_is_scaled:
  "(DGP_VI_L_S_N self Xb Yb r = Inr ((L, N, gk), r')
      \<and> gk \<noteq> [] \<and> (\<forall>u \<in> set gk. shape u = shape (hd gk))
      \<and> 1 \<le> num_samples self \<and> 1 \<le> N \<longrightarrow>
      (\<forall>nd.
          DGP_VI_build_likelihood (self\<lparr>num_data := nd\<rparr>) Xb Yb r
            = Inr ((\<Sum>n<N. (\<Sum>s<num_samples self. elem L [s, n]) / real (num_samples self))
                     * (real nd / real N)
                   - (\<Sum>u\<leftarrow>gk. sum_list (data u)), r')
        \<and> DGP_VI_build_likelihood (self\<lparr>num_data := 2 * nd\<rparr>) Xb Yb r
            = Inr (2 * ((\<Sum>n<N. (\<Sum>s<num_samples self. elem L [s, n]) / real (num_samples self))
                          * (real nd / real N))
                   - (\<Sum>u\<leftarrow>gk. sum_list (data u)), r')))
 \<and> (DGP_IWVI_L_NK self Xb Yb r = Inr ((L', gk'), r'') \<and> shape L' = [N', num_samples self]
      \<and> shape0 Xb = Inr N'
      \<and> gk' \<noteq> [] \<and> (\<forall>u \<in> set gk'. shape u = shape (hd gk'))
      \<and> 1 \<le> num_samples self \<and> 1 \<le> N' \<longrightarrow>
      (\<forall>nd.
          DGP_IWVI_build_likelihood (self\<lparr>num_data := nd\<rparr>) Xb Yb r
            = Inr ((\<Sum>n<N'. ln (\<Sum>k<num_samples self. exp (elem L' [n, k]))
                                - ln (real (num_samples self)))
                     * (real nd / real N')
                   - (\<Sum>u\<leftarrow>gk'. sum_list (data u)), r'')
        \<and> DGP_IWVI_build_likelihood (self\<lparr>num_data := 2 * nd\<rparr>) Xb Yb r
            = Inr (2 * ((\<Sum>n<N'. ln (\<Sum>k<num_samples self. exp (elem L' [n, k]))
                                     - ln (real (num_samples self)))
                          * (real nd / real N'))
                   - (\<Sum>u\<leftarrow>gk'. sum_list (data u)), r'')))"
proof (rule conjI; rule impI)
  assume A: "DGP_VI_L_S_N self Xb Yb r = Inr ((L, N, gk), r')
      \<and> gk \<noteq> [] \<and> (\<forall>u \<in> set gk. shape u = shape (hd gk))
      \<and> 1 \<le> num_samples self \<and> 1 \<le> N"
  then have G: "tf_reduce_sum_list gk = Inr (Float64, \<Sum>u\<leftarrow>gk. sum_list (data u))"
    using tf_reduce_sum_list_value by blast
  have v: "DGP_VI_build_likelihood (self\<lparr>num_data := nd\<rparr>) Xb Yb r =
           Inr ((\<Sum>n<N. (\<Sum>s<num_samples self. elem L [s, n]) / real (num_samples self))
                  * (real nd / real N) - (\<Sum>u\<leftarrow>gk. sum_list (data u)), r')" for nd
    using VI_bound_value[of self Xb Yb r L N gk r' _ nd, OF _ G] A by simp
  show "\<forall>nd.
          DGP_VI_build_likelihood (self\<lparr>num_data := nd\<rparr>) Xb Yb r
            = Inr ((\<Sum>n<N. (\<Sum>s<num_samples self. elem L [s, n]) / real (num_samples self))
                     * (real nd / real N)
                   - (\<Sum>u\<leftarrow>gk. sum_list (data u)), r')
        \<and> DGP_VI_build_likelihood (self\<lparr>num_data := 2 * nd\<rparr>) Xb Yb r
            = Inr (2 * ((\<Sum>n<N. (\<Sum>s<num_samples self. elem L [s, n]) / real (num_samples self))
                          * (real nd / real N))
                   - (\<Sum>u\<leftarrow>gk. sum_list (data u)), r')"
    by (simp add: v)
next
  assume A: "DGP_IWVI_L_NK self Xb Yb r = Inr ((L', gk'), r'') \<and> shape L' = [N', num_samples self]
      \<and> shape0 Xb = Inr N'
      \<and> gk' \<noteq> [] \<and> (\<forall>u \<in> set gk'. shape u = shape (hd gk'))
      \<and> 1 \<le> num_samples self \<and> 1 \<le> N'"
  then have G: "tf_reduce_sum_list gk' = Inr (Float64, \<Sum>u\<leftarrow>gk'. sum_list (data u))"
    using tf_reduce_sum_list_value by blast
  have v: "DGP_IWVI_build_likelihood (self\<lparr>num_data := nd\<rparr>) Xb Yb r =
           Inr ((\<Sum>n<N'. ln (\<Sum>k<num_samples self. exp (elem L' [n, k])) - ln (real (num_samples self)))
                  * (real nd / real N') - (\<Sum>u\<leftarrow>gk'. sum_list (data u)), r'')" for nd
    using IWVI_bound_value[of self Xb Yb r L' gk' r'' N' _ nd, OF _ _ _ G] A by simp
  show "\<forall>nd.
          DGP_IWVI_build_likelihood (self\<lparr>num_data := nd\<rparr>) Xb Yb r
            = Inr ((\<Sum>n<N'. ln (\<Sum>k<num_samples self. exp (elem L' [n, k]))
                                - ln (real (num_samples self)))
                     * (real nd / real N')
                   - (\<Sum>u\<leftarrow>gk'. sum_list (data u)), r'')
        \<and> DGP_IWVI_build_likelihood (self\<lparr>num_data := 2 * nd\<rparr>) Xb Yb r
            = Inr (2 * ((\<Sum>n<N'. ln (\<Sum>k<num_samples self. exp (elem L' [n, k]))
                                     - ln (real (num_samples self)))
                          * (real nd / real N'))
                   - (\<Sum>u\<leftarrow>gk'. sum_list (data u)), r'')"
    by (simp add: v)
qed

theorem only_the_data_term_is_scaled_witness:
  "DGP_VI_L_S_N vi_scale_example two_point_batch two_point_batch 0
     = Inr ((Tensor [2, 2] [0, 2, 4, 6], 2, [Tensor [] [3]]), 1)
   \<and> 1 \<le> num_samples vi_scale_example
   \<and> DGP_VI_build_likelihood (vi_scale_example\<lparr>num_data := 2\<rparr>) two_point_batch two_point_batch 0
       = Inr (6 * (2 / 2) - 3, 1)
   \<and> DGP_VI_build_likelihood (vi_scale_example\<lparr>num_data := 4\<rparr>) two_point_batch two_point_batch 0
       = Inr (2 * (6 * (2 / 2)) - 3, 1)
   \<and> DGP_IWVI_L_NK iwvi_scale_example two_point_batch two_point_batch 0
     = Inr ((Tensor [2, 2] [1, 1, 2, 2], [Tensor [] [3]]), 1)
   \<and> shape (Tensor [2, 2] [1, 1, 2, 2]) = [2, num_samples iwvi_scale_example]
   \<and> shape0 two_point_batch = Inr 2
   \<and> 1 \<le> num_samples iwvi_scale_example
   \<and> DGP_IWVI_build_likelihood (iwvi_scale_example\<lparr>num_data := 2\<rparr>) two_point_batch two_point_batch 0
       = Inr (3 * (2 / 2) - 3, 1)
   \<and> DGP_IWVI_build_likelihood (iwvi_scale_example\<lparr>num_data := 4\<rparr>) two_point_batch two_point_batch 0
       = Inr (2 * (3 * (2 / 2)) - 3, 1)"
proof -
  have L: "DGP_VI_L_S_N vi_scale_example two_point_batch two_point_batch 0
     = Inr ((Tensor [2, 2] [0, 2, 4, 6], 2, [Tensor [] [3]]), 1)"
    by code_simp
  have L': "DGP_IWVI_L_NK iwvi_scale_example two_point_batch two_point_batch 0
     = Inr ((Tensor [2, 2] [1, 1, 2, 2], [Tensor [] [3]]), 1)"
    by code_simp
  have S: "num_samples vi_scale_example = 2" and S': "num_samples iwvi_scale_example = 2"
    by (simp_all add: vi_scale_example_def iwvi_scale_example_def example_model_def)
  have X: "shape0 two_point_batch = Inr 2"
    by code_simp
  have two: "{..<2::nat} = {0, 1}"
    by auto
  have gk: "[Tensor [] [3]] \<noteq> []" "\<forall>u \<in> set [Tensor [] [3]]. shape u = shape (hd [Tensor [] [3]])"
    by simp_all
  have vi: "DGP_VI_build_likelihood (vi_scale_example\<lparr>num_data := 2\<rparr>) two_point_batch two_point_batch 0
       = Inr (6 * (2 / 2) - 3, 1)
     \<and> DGP_VI_build_likelihood (vi_scale_example\<lparr>num_data := 4\<rparr>) two_point_batch two_point_batch 0
       = Inr (2 * (6 * (2 / 2)) - 3, 1)"
    using only_the_data_term_is_scaled
      [THEN conjunct1, of vi_scale_example two_point_batch two_point_batch 0
         "Tensor [2, 2] [0, 2, 4, 6]" 2 "[Tensor [] [3]]" 1, rule_format, of 2]
      L gk S
    by (simp add: elem_def two)
  have iwvi: "DGP_IWVI_build_likelihood (iwvi_scale_example\<lparr>num_data := 2\<rparr>) two_point_batch two_point_batch 0
       = Inr (3 * (2 / 2) - 3, 1)
     \<and> DGP_IWVI_build_likelihood (iwvi_scale_example\<lparr>num_data := 4\<rparr>) two_point_batch two_point_batch 0
       = Inr (2 * (3 * (2 / 2)) - 3, 1)"
    using only_the_data_term_is_scaled
      [THEN conjunct2, of iwvi_scale_example two_point_batch two_point_batch 0
         "Tensor [2, 2] [1, 1, 2, 2]" "[Tensor [] [3]]" 1 2, rule_format, of 2]
      L' gk S' X
    by (simp add: elem_def two ln_twice_exp)
  show ?thesis
    using L L' X S S' vi iwvi by simp
qed

section \<open>The covariance handed to the likelihood\<close>

lemma concat_rows_nth:
  "p < n \<Longrightarrow> i < m \<Longrightarrow> concat (map (\<lambda>p. map (f p) [0..<m]) [0..<n]) ! (p * m + i) = f p i"
proof (induction n)
  case 0
  then show ?case by simp
next
  case (Suc n)
  have len: "length (concat (map (\<lambda>p. map (f p) [0..<m]) [0..<n])) = n * m"
    by (induction n) simp_all
  show ?case
  proof (cases "p < n")
    case True
    then have "p * m + i < n * m" using Suc.prems by (intro flat2_less)
    with True Suc show ?thesis by (simp add: nth_append len)
  next
    case False
    with Suc.prems have "p = n" by simp
    with Suc.prems show ?thesis by (simp add: nth_append len)
  qed
qed

lemma tf_matrix_diag_part_4:
  assumes "shape c = [N, Dy, K, K]"
  shows "tf_matrix_diag_part c =
     Inr (Tensor [N, Dy, K] (concat [[data c ! ((p * K + i) * K + i). i \<leftarrow> [0..<K]]. p \<leftarrow> [0..<N * Dy]]))"
  using assms by (simp add: tf_matrix_diag_part_def numeral_eq_Suc)

lemma cov_diag_entries:
  assumes sh: "shape cov_last = [N, Dy, K, K]"
  shows "\<exists>cov_diag. DGP_IWVI_cov_diag cov_last = Inr cov_diag \<and> shape cov_diag = [N, K, Dy]
           \<and> (\<forall>n<N. \<forall>k<K. \<forall>d<Dy. elem cov_diag [n, k, d] = elem cov_last [n, d, k, k])"
proof -
  define dg where "dg = concat [[data cov_last ! ((p * K + i) * K + i). i \<leftarrow> [0..<K]]. p \<leftarrow> [0..<N * Dy]]"
  define cd where "cd = Tensor [N, K, Dy]
     [dg ! ravel [N, Dy, K] [unravel [N, K, Dy] j ! index_of [0, 2, 1] a. a \<leftarrow> [0..<3]].
        j \<leftarrow> [0..<N * K * Dy]]"
  have diag: "tf_matrix_diag_part cov_last = Inr (Tensor [N, Dy, K] dg)"
    unfolding dg_def using sh by (rule tf_matrix_diag_part_4)
  have upt3: "[0..<3] = [0, 1, 2]"
    by (simp add: numeral_3_eq_3 upt_rec)
  have "sort [0, 2, 1] = [0, 1, 2::nat]" by simp
  then have tr: "tf_transpose (Tensor [N, Dy, K] dg) [0, 2, 1] = Inr cd"
    by (simp add: tf_transpose_def cd_def upt3 mult.assoc index_of_def numeral_2_eq_2)
  have "elem cd [n, k, d] = elem cov_last [n, d, k, k]" if "n < N" "k < K" "d < Dy" for n k d
  proof -
    define J where "J = n * (K * Dy) + (k * Dy + d)"
    have kd: "k * Dy + d < K * Dy" using that by (intro flat2_less)
    then have "n * (K * Dy) + (k * Dy + d) < N * (K * Dy)" using that by (intro flat2_less)
    then have j: "J < N * K * Dy" by (simp add: J_def mult.assoc)
    have 1: "J div (K * Dy) = n" unfolding J_def using kd by (rule div_flat)
    have 2: "J mod (K * Dy) = k * Dy + d" unfolding J_def using kd by (rule mod_flat)
    have 3: "(k * Dy + d) mod Dy = d" "(k * Dy + d) div Dy = k" using that by simp_all
    have p: "n * Dy + d < N * Dy" using that by (intro flat2_less)
    have "elem cd [n, k, d] = data cd ! J"
      by (simp add: elem_def cd_def J_def)
    also have "\<dots> = dg ! (J div (K * Dy) * (Dy * K) + (J mod (K * Dy) mod Dy * K + J mod (K * Dy) div Dy))"
      using j by (simp add: cd_def upt3 index_of_def numeral_2_eq_2)
    also have "\<dots> = dg ! ((n * Dy + d) * K + k)"
      unfolding 1 2 3 by (simp add: algebra_simps)
    also have "\<dots> = data cov_last ! (((n * Dy + d) * K + k) * K + k)"
      unfolding dg_def using p that(2) by (rule concat_rows_nth)
    also have "\<dots> = elem cov_last [n, d, k, k]"
      by (simp add: elem_def sh algebra_simps)
    finally show ?thesis .
  qed
  with diag tr show ?thesis
    by (auto simp: DGP_IWVI_cov_diag_def cd_def)
qed

lemma last_item_eq_Inr: "last_item xs = Inr x \<longleftrightarrow> xs \<noteq> [] \<and> x = last xs"
  by (auto simp: last_item_def)

lemma DGP_IWVI_before_local_hands_cov_diag:
  assumes "DGP_IWVI_L_NK_before_local self Xb Yb r = Inr ((L_NK0, kls, kl_types), r')"
  shows "\<exists>X1 X_tiled Y1 Y_tiled XY samples means covs cov_diag var_exp.
           tf_newaxis Xb 1 2 = Inr X1 \<and> tf_tile X1 [1, num_samples self, 1] = Inr X_tiled
         \<and> tf_newaxis Yb 1 2 = Inr Y1 \<and> tf_tile Y1 [1, num_samples self, 1] = Inr Y_tiled
         \<and> tf_concat_last [X_tiled, Y_tiled] = Inr XY
         \<and> propagate self X_tiled True (Some XY) True r
             = Inr ((samples, means, covs, kls, kl_types), r')
         \<and> covs \<noteq> [] \<and> means \<noteq> []
         \<and> DGP_IWVI_cov_diag (last covs) = Inr cov_diag
         \<and> variational_expectations (likelihood self) (last means) cov_diag Y_tiled = Inr var_exp
         \<and> tf_reduce_sum var_exp 2 = Inr L_NK0"
  using assms unfolding DGP_IWVI_L_NK_before_local_def
  by (auto simp: bindE_eq_Inr last_item_eq_Inr split: prod.splits)

lemma DGP_IWVI_build_before_local:
  assumes "DGP_IWVI_build_likelihood self Xb Yb r = Inr (v, r')"
  shows "\<exists>L_NK0 kls kl_types. DGP_IWVI_L_NK_before_local self Xb Yb r = Inr ((L_NK0, kls, kl_types), r')"
  using assms unfolding DGP_IWVI_L_NK_stages DGP_IWVI_L_NK_def
  by (auto simp: bindE_eq_Inr split: prod.splits if_splits)

lemma DGP_IWVI_L_NK_elim2:
  assumes "DGP_IWVI_L_NK self Xb Yb r = Inr ((L, gk), r')"
  shows "\<exists>L0 kls kl_types.
    DGP_IWVI_L_NK_before_local self Xb Yb r = Inr ((L0, kls, kl_types), r')
    \<and> IWVI_subtract_local L0 (kls_of_type LOCAL kls kl_types) = Inr L
    \<and> gk = kls_of_type GLOBAL kls kl_types"
  using assms unfolding DGP_IWVI_L_NK_def
  by (auto simp: bindE_eq_Inr split: prod.splits)

lemma tf_sub_float64_eq_Inr:
  "tf_sub_float64 x y = Inr b \<longleftrightarrow> (\<exists>G. y = (Float64, G) \<and> b = x - G)"
  by (cases y; cases "fst y") (auto simp: tf_sub_float64_def)

lemma DGP_IWVI_build_elim:
  assumes "DGP_IWVI_build_likelihood self Xb Yb r = Inr (v, r')"
  shows "\<exists>L gk N lse G.
     DGP_IWVI_L_NK self Xb Yb r = Inr ((L, gk), r')
   \<and> shape0 Xb = Inr N
   \<and> tf_reduce_logsumexp L 1 = Inr lse
   \<and> tf_reduce_sum_list gk = Inr (Float64, G)
   \<and> v = tf_reduce_sum_all (tf_sub_scalar lse (ln (real (num_samples self))))
              * (real (num_data self) / real N) - G"
  using assms unfolding DGP_IWVI_L_NK_stages
  by (auto simp: bindE_eq_Inr tf_sub_float64_eq_Inr split: prod.splits if_splits)

text \<open>
  C6, as stated, fails: what line 146 extracts from a final covariance of shape
  \<open>(N, Dy, K, K)\<close> is not a \<open>K\<times>K\<close> matrix per point. For one point, one output and two samples
  it has the two entries of the diagonal; two covariances that differ in their cross-sample
  entries give the same extract, and a likelihood that returns the covariance argument it
  was handed gives the same objective for both.
\<close>

theorem cov_diag_drops_cross_sample_terms_counterexample:
  "DGP_IWVI_cov_diag (Tensor [1, 1, 2, 2] [1, 5, 5, 2]) = Inr (Tensor [1, 2, 1] [1, 2])
   \<and> DGP_IWVI_cov_diag (Tensor [1, 1, 2, 2] [1, 0, 0, 2]) = Inr (Tensor [1, 2, 1] [1, 2])
   \<and> DGP_IWVI_L_NK (cov_probe_example (Tensor [1, 1, 2, 2] [1, 5, 5, 2])) example_batch example_batch 0
        = Inr ((Tensor [1, 2] [1, 2], [Tensor [] [0]]), 1)
   \<and> DGP_IWVI_build_likelihood (cov_probe_example (Tensor [1, 1, 2, 2] [1, 5, 5, 2]))
          example_batch example_batch 0
        = DGP_IWVI_build_likelihood (cov_probe_example (Tensor [1, 1, 2, 2] [1, 0, 0, 2]))
          example_batch example_batch 0"
proof -
  have d1: "DGP_IWVI_cov_diag (Tensor [1, 1, 2, 2] [1, 5, 5, 2]) = Inr (Tensor [1, 2, 1] [1, 2])"
    by code_simp
  have d2: "DGP_IWVI_cov_diag (Tensor [1, 1, 2, 2] [1, 0, 0, 2]) = Inr (Tensor [1, 2, 1] [1, 2])"
    by code_simp
  have L1: "DGP_IWVI_L_NK (cov_probe_example (Tensor [1, 1, 2, 2] [1, 5, 5, 2])) example_batch example_batch 0
        = Inr ((Tensor [1, 2] [1, 2], [Tensor [] [0]]), 1)"
    by code_simp
  have L2: "DGP_IWVI_L_NK (cov_probe_example (Tensor [1, 1, 2, 2] [1, 0, 0, 2])) example_batch example_batch 0
        = Inr ((Tensor [1, 2] [1, 2], [Tensor [] [0]]), 1)"
    by code_simp
  have K: "num_samples (cov_probe_example c) = 2" and nd: "num_data (cov_probe_example c) = 1" for c
    by (simp_all add: cov_probe_example_def example_model_def)
  have "DGP_IWVI_build_likelihood (cov_probe_example (Tensor [1, 1, 2, 2] [1, 5, 5, 2]))
          example_batch example_batch 0
        = DGP_IWVI_build_likelihood (cov_probe_example (Tensor [1, 1, 2, 2] [1, 0, 0, 2]))
          example_batch example_batch 0"
    by (simp only: DGP_IWVI_L_NK_stages L1 L2 K nd)
  with d1 d2 L1 show ?thesis by simp
qed

text \<open>
  C6, amended: whenever the IWVI objective returns a value, that value is computed from the
  variational expectations of the likelihood at the final mean \<open>means[-1]\<close>, at the tiled
  targets, and at \<open>cov_diag\<close>, the tensor that line 146 extracts from the final covariance
  \<open>covs[-1]\<close>. For a final covariance of shape \<open>(N, Dy, K, K)\<close>, which holds a \<open>K\<times>K\<close>
  cross-sample block for every data point and output, \<open>cov_diag\<close> has shape \<open>(N, K, Dy)\<close> and
  its entry \<open>[n, k, d]\<close> is the variance \<open>covs[-1][n, d, k, k]\<close>: the diagonal of each block,
  with the output axis moved last. The cross-sample terms do not reach the likelihood.
\<close>

theorem cov_diag_is_the_sample_diagonal:
  assumes "DGP_IWVI_build_likelihood self Xb Yb r = Inr (v, r')"
  shows "\<exists>X1 X_tiled Y1 Y_tiled XY samples means covs kls kl_types cov_diag var_exp L_NK0 L_NK N lse G.
           tf_newaxis Xb 1 2 = Inr X1 \<and> tf_tile X1 [1, num_samples self, 1] = Inr X_tiled
         \<and> tf_newaxis Yb 1 2 = Inr Y1 \<and> tf_tile Y1 [1, num_samples self, 1] = Inr Y_tiled
         \<and> tf_concat_last [X_tiled, Y_tiled] = Inr XY
         \<and> propagate self X_tiled True (Some XY) True r
             = Inr ((samples, means, covs, kls, kl_types), r')
         \<and> covs \<noteq> [] \<and> means \<noteq> []
         \<and> DGP_IWVI_cov_diag (last covs) = Inr cov_diag
         \<and> (\<forall>N' Dy K. shape (last covs) = [N', Dy, K, K] \<longrightarrow>
               shape cov_diag = [N', K, Dy]
               \<and> (\<forall>n<N'. \<forall>k<K. \<forall>d<Dy. elem cov_diag [n, k, d] = elem (last covs) [n, d, k, k]))
         \<and> variational_expectations (likelihood self) (last means) cov_diag Y_tiled = Inr var_exp
         \<and> tf_reduce_sum var_exp 2 = Inr L_NK0
         \<and> IWVI_subtract_local L_NK0 (kls_of_type LOCAL kls kl_types) = Inr L_NK
         \<and> shape0 Xb = Inr N
         \<and> tf_reduce_logsumexp L_NK 1 = Inr lse
         \<and> tf_reduce_sum_list (kls_of_type GLOBAL kls kl_types) = Inr (Float64, G)
         \<and> v = tf_reduce_sum_all (tf_sub_scalar lse (ln (real (num_samples self))))
                  * (real (num_data self) / real N) - G"
proof -
  from DGP_IWVI_build_elim[OF assms] obtain L gk N lse G where
    L: "DGP_IWVI_L_NK self Xb Yb r = Inr ((L, gk), r')"
    and N: "shape0 Xb = Inr N"
    and lse: "tf_reduce_logsumexp L 1 = Inr lse"
    and G: "tf_reduce_sum_list gk = Inr (Float64, G)"
    and v: "v = tf_reduce_sum_all (tf_sub_scalar lse (ln (real (num_samples self))))
              * (real (num_data self) / real N) - G"
    by blast
  from DGP_IWVI_L_NK_elim2[OF L] obtain L0 kls kl_types where
    b: "DGP_IWVI_L_NK_before_local self Xb Yb r = Inr ((L0, kls, kl_types), r')"
    and sub: "IWVI_subtract_local L0 (kls_of_type LOCAL kls kl_types) = Inr L"
    and gk: "gk = kls_of_type GLOBAL kls kl_types"
    by blast
  from DGP_IWVI_before_local_hands_cov_diag[OF b]
  obtain X1 X_tiled Y1 Y_tiled XY samples means covs cov_diag var_exp where
    c: "tf_newaxis Xb 1 2 = Inr X1" "tf_tile X1 [1, num_samples self, 1] = Inr X_tiled"
       "tf_newaxis Yb 1 2 = Inr Y1" "tf_tile Y1 [1, num_samples self, 1] = Inr Y_tiled"
       "tf_concat_last [X_tiled, Y_tiled] = Inr XY"
       "propagate self X_tiled True (Some XY) True r = Inr ((samples, means, covs, kls, kl_types), r')"
       "covs \<noteq> []" "means \<noteq> []"
    and cd: "DGP_IWVI_cov_diag (last covs) = Inr cov_diag"
    and ve: "variational_expectations (likelihood self) (last means) cov_diag Y_tiled = Inr var_exp"
            "tf_reduce_sum var_exp 2 = Inr L0"
    by blast
  have ent: "\<forall>N' Dy K. shape (last covs) = [N', Dy, K, K] \<longrightarrow>
               shape cov_diag = [N', K, Dy]
               \<and> (\<forall>n<N'. \<forall>k<K. \<forall>d<Dy. elem cov_diag [n, k, d] = elem (last covs) [n, d, k, k])"
  proof (intro allI impI)
    fix N' Dy K assume "shape (last covs) = [N', Dy, K, K]"
    from cov_diag_entries[OF this] cd
    show "shape cov_diag = [N', K, Dy]
               \<and> (\<forall>n<N'. \<forall>k<K. \<forall>d<Dy. elem cov_diag [n, k, d] = elem (last covs) [n, d, k, k])"
      by auto
  qed
  from c cd ent ve sub N lse G[unfolded gk] v show ?thesis by blast
qed

theorem cov_diag_is_the_sample_diagonal_witness:
  "DGP_IWVI_build_likelihood (cov_probe_example (Tensor [1, 1, 2, 2] [1, 5, 5, 2]))
       example_batch example_batch 0 = Inr (ln (exp 1 + exp 2) - ln 2, 1)
   \<and> (\<exists>X_tiled Y_tiled XY samples means covs kls kl_types var_exp.
        propagate (cov_probe_example (Tensor [1, 1, 2, 2] [1, 5, 5, 2])) X_tiled True (Some XY) True 0
             = Inr ((samples, means, covs, kls, kl_types), 1)
        \<and> last covs = Tensor [1, 1, 2, 2] [1, 5, 5, 2]
        \<and> last means = Tensor [1, 2, 1] [0, 0]
        \<and> DGP_IWVI_cov_diag (last covs) = Inr (Tensor [1, 2, 1] [1, 2])
        \<and> variational_expectations cov_probe_likelihood (last means) (Tensor [1, 2, 1] [1, 2]) Y_tiled
             = Inr var_exp
        \<and> tf_reduce_sum var_exp 2 = Inr (Tensor [1, 2] [1, 2]))"
proof -
  let ?m = "cov_probe_example (Tensor [1, 1, 2, 2] [1, 5, 5, 2])"
  have L: "DGP_IWVI_L_NK ?m example_batch example_batch 0
        = Inr ((Tensor [1, 2] [1, 2], [Tensor [] [0]]), 1)"
    by code_simp
  have K: "num_samples ?m = 2" and nd: "num_data ?m = 1" and lik: "likelihood ?m = cov_probe_likelihood"
    by (simp_all add: cov_probe_example_def example_model_def)
  have idem: "?m\<lparr>num_data := 1\<rparr> = ?m"
    by (simp add: cov_probe_example_def example_model_def)
  have two: "{..<2::nat} = {0, 1}" by auto
  have G: "tf_reduce_sum_list [Tensor [] [0]] = Inr (Float64, 0)"
    by (simp add: tf_reduce_sum_list_def tf_reduce_sum_all_def)
  have X: "shape0 example_batch = Inr 1"
    by (simp add: shape0_def example_batch_def)
  have sh: "shape (Tensor [1, 2] [1, 2]) = [1, num_samples ?m]"
    unfolding K by simp
  have K1: "1 \<le> num_samples ?m" unfolding K by simp
  have val: "(\<Sum>n<(1::nat). ln (\<Sum>k<num_samples ?m. exp (elem (Tensor [1, 2] [1, 2]) [n, k]))
                 - ln (real (num_samples ?m))) * (real 1 / real 1) - 0
             = ln (exp 1 + exp 2) - ln 2"
    unfolding K by (simp add: two elem_def)
  have h: "DGP_IWVI_build_likelihood ?m example_batch example_batch 0 = Inr (ln (exp 1 + exp 2) - ln 2, 1)"
    using IWVI_bound_value[OF L sh X G K1 order_refl, of 1]
    unfolding idem val .
  from cov_diag_is_the_sample_diagonal[OF h]
  obtain X_tiled Y_tiled XY samples means covs kls kl_types cov_diag var_exp L_NK0 where
    p: "propagate ?m X_tiled True (Some XY) True 0 = Inr ((samples, means, covs, kls, kl_types), 1)"
    and ne: "covs \<noteq> []" "means \<noteq> []"
    and cd: "DGP_IWVI_cov_diag (last covs) = Inr cov_diag"
    and ve: "variational_expectations (likelihood ?m) (last means) cov_diag Y_tiled = Inr var_exp"
    and rs: "tf_reduce_sum var_exp 2 = Inr L_NK0"
    by (elim exE conjE) (rule that; assumption)
  have lay: "layers ?m = [const_layer (Tensor [1, 2, 1] [0, 0]) (Tensor [1, 1, 2, 2] [1, 5, 5, 2]) (Tensor [] [0]) GLOBAL]"
    by (simp add: cov_probe_example_def example_model_def)
  from p[unfolded propagate_def lay]
  have cm: "covs = [Tensor [1, 1, 2, 2] [1, 5, 5, 2]]" "means = [Tensor [1, 2, 1] [0, 0]]"
    by (auto simp: const_layer_def bindE_eq_Inr split: prod.splits)
  have d1: "DGP_IWVI_cov_diag (Tensor [1, 1, 2, 2] [1, 5, 5, 2]) = Inr (Tensor [1, 2, 1] [1, 2])"
    by code_simp
  from cd cm d1 have cdv: "cov_diag = Tensor [1, 2, 1] [1, 2]" by simp
  note ve' = ve[unfolded lik cdv]
  from ve' have vev: "var_exp = Tensor [1, 2, 1] [1, 2]"
    by (simp add: cov_probe_likelihood_def)
  have rsv: "tf_reduce_sum (Tensor [1, 2, 1] [1, 2]) 2 = Inr (Tensor [1, 2] [1, 2])" by code_simp
  have body: "propagate ?m X_tiled True (Some XY) True 0 = Inr ((samples, means, covs, kls, kl_types), 1)
        \<and> last covs = Tensor [1, 1, 2, 2] [1, 5, 5, 2]
        \<and> last means = Tensor [1, 2, 1] [0, 0]
        \<and> DGP_IWVI_cov_diag (last covs) = Inr (Tensor [1, 2, 1] [1, 2])
        \<and> variational_expectations cov_probe_likelihood (last means) (Tensor [1, 2, 1] [1, 2]) Y_tiled
             = Inr var_exp
        \<and> tf_reduce_sum var_exp 2 = Inr (Tensor [1, 2] [1, 2])"
    using p ve' rsv d1 unfolding cm vev by simp
  show ?thesis
    apply (rule conjI[OF h])
    apply (intro exI)
    apply (rule body)
    done
qed

section \<open>Mismatched layers\<close>








section \<open>Empty regularizer lists\<close>

text \<open>
  C9: the two empty lists are not treated alike. With a \<open>GLOBAL\<close> layer and no \<open>LOCAL\<close> one
  the guard \<^verbatim>\<open>len(local_kls) > 0\<close> skips the subtraction and both objectives return their
  value. With a \<open>LOCAL\<close> layer and no \<open>GLOBAL\<close> one, \<^verbatim>\<open>tf.reduce_sum(global_kls)\<close> is the
  sum of an empty Python list, a \<^verbatim>\<open>float32\<close> zero, and its subtraction from the \<^verbatim>\<open>float64\<close>
  data term in the return line (line 86, line 163) raises a \<^verbatim>\<open>TypeError\<close>: in both
  objectives, and so in the constructor call of both classes.
\<close>

theorem no_global_layer_raises_type_error:
  "DGP_VI_build_likelihood vi_example example_batch example_batch 0 = Inr (1, 1)
   \<and> DGP_IWVI_build_likelihood iwvi_example example_batch example_batch 0
        = Inr (ln (exp 0 + exp 2) - ln 2, 1)
   \<and> DGP_VI_build_likelihood vi_local_example example_batch example_batch 0 = Inl TypeError
   \<and> DGP_IWVI_build_likelihood iwvi_local_example example_batch example_batch 0 = Inl TypeError
   \<and> construct DGP_VI (\<lambda>t b s. t) example_batch example_batch (layers vi_local_example)
        mean_likelihood 2 None None 0 = Inl TypeError
   \<and> construct DGP_IWVI (\<lambda>t b s. t) example_batch example_batch (layers iwvi_local_example)
        mean_likelihood 2 None None 0 = Inl TypeError"
proof -
  have upt2: "[0..<2] = [0, Suc 0]"
    by (simp add: numeral_2_eq_2)
  have two: "{..<2::nat} = {0, 1}" by auto
  have G: "tf_reduce_sum_list [Tensor [] [0]] = Inr (Float64, 0)"
    by code_simp
  have E: "tf_reduce_sum_list [] = Inr (Float32, 0)"
    by (simp add: tf_reduce_sum_list_def)
  have X: "shape0 example_batch = Inr 1"
    by (simp add: shape0_def example_batch_def)
  have Lv: "DGP_VI_L_S_N vi_example example_batch example_batch 0
     = Inr ((Tensor [2, 1] [0, 2], 1, [Tensor [] [0]]), 1)"
    by code_simp
  have S2: "num_samples vi_example = 2" and nd: "num_data vi_example = 1"
    by (simp_all add: vi_example_def example_model_def)
  have vi: "DGP_VI_build_likelihood vi_example example_batch example_batch 0 = Inr (1, 1)"
    by (simp add: DGP_VI_L_S_N_stages Lv G S2 nd tf_reduce_mean_def tf_reduce_axis0 mean_list_def
        tf_reduce_sum_all_def upt2)
  have Li: "DGP_IWVI_L_NK iwvi_example example_batch example_batch 0
     = Inr ((Tensor [1, 2] [0, 2], [Tensor [] [0]]), 1)"
    by code_simp
  have K: "num_samples iwvi_example = 2"
    by (simp add: iwvi_example_def example_model_def)
  have idem: "iwvi_example\<lparr>num_data := 1\<rparr> = iwvi_example"
    by (simp add: iwvi_example_def example_model_def)
  have sh: "shape (Tensor [1, 2] [0, 2]) = [1, num_samples iwvi_example]"
    unfolding K by simp
  have K1: "1 \<le> num_samples iwvi_example" unfolding K by simp
  have val: "(\<Sum>n<(1::nat). ln (\<Sum>k<num_samples iwvi_example. exp (elem (Tensor [1, 2] [0, 2]) [n, k]))
                 - ln (real (num_samples iwvi_example))) * (real 1 / real 1) - 0
             = ln (exp 0 + exp 2) - ln 2"
    unfolding K by (simp add: two elem_def)
  have iw: "DGP_IWVI_build_likelihood iwvi_example example_batch example_batch 0
        = Inr (ln (exp 0 + exp 2) - ln 2, 1)"
    using IWVI_bound_value[OF Li sh X G K1 order_refl, of 1]
    unfolding idem val .
  have Lvl: "DGP_VI_L_S_N vi_local_example example_batch example_batch 0
     = Inr ((Tensor [2, 1] [- 1, 1], 1, []), 1)"
    by code_simp
  have vil: "DGP_VI_build_likelihood vi_local_example example_batch example_batch 0 = Inl TypeError"
    by (simp add: DGP_VI_L_S_N_stages Lvl E tf_reduce_mean_def tf_reduce_axis0)
  have Lil: "DGP_IWVI_L_NK iwvi_local_example example_batch example_batch 0
     = Inr ((Tensor [1, 2] [- 1, 1], []), 1)"
    by code_simp
  have lse: "tf_reduce_logsumexp (Tensor [1, 2] [- 1, 1]) 1
      = Inr (Tensor [1] [logsumexp_list [data (Tensor [1, 2] [- 1, 1]) ! (n * 2 + k). k \<leftarrow> [0..<2]]. n \<leftarrow> [0..<1]])"
    unfolding tf_reduce_logsumexp_def by (rule tf_reduce_axis1) simp
  have iwl: "DGP_IWVI_build_likelihood iwvi_local_example example_batch example_batch 0 = Inl TypeError"
    unfolding DGP_IWVI_L_NK_stages Lil by (simp only: bindE_Inr prod.case X lse E tf_sub_float64_simps bindE_Inl)
  have i1: "DGP_VI_init example_batch example_batch (layers vi_local_example) mean_likelihood 2 None None
       = Inr vi_local_example"
    by (simp add: DGP_VI_init_def vi_local_example_def example_model_def example_batch_def)
  have i2: "DGP_VI_init example_batch example_batch (layers iwvi_local_example) mean_likelihood 2 None None
       = Inr iwvi_local_example"
    by (simp add: DGP_VI_init_def iwvi_local_example_def example_model_def example_batch_def)
  have dx: "param_tensor f (data_X vi_local_example) = example_batch"
           "param_tensor f (data_Y vi_local_example) = example_batch"
           "param_tensor f (data_X iwvi_local_example) = example_batch"
           "param_tensor f (data_Y iwvi_local_example) = example_batch" for f
    by (simp_all add: param_tensor_def vi_local_example_def iwvi_local_example_def example_model_def
        example_batch_def)
  have c1: "construct DGP_VI (\<lambda>t b s. t) example_batch example_batch (layers vi_local_example)
        mean_likelihood 2 None None 0 = Inl TypeError"
    by (simp add: construct_def DGP_VI_def i1 dx vil)
  have c2: "construct DGP_IWVI (\<lambda>t b s. t) example_batch example_batch (layers iwvi_local_example)
        mean_likelihood 2 None None 0 = Inl TypeError"
    by (simp add: construct_def DGP_VI_def DGP_IWVI_def i2 dx iwl)
  show ?thesis
    by (intro conjI vi iw vil iwl c1 c2)
qed

section \<open>What the IWVI class inherits\<close>

lemma construct_model:
  assumes "construct cls feed X Y ls lik S mb nm r = Inr self"
  shows "m_init cls X Y ls lik S mb nm = Inr self"
proof (cases "m_init cls X Y ls lik S mb nm")
  case (Inl e)
  with assms show ?thesis by (simp add: construct_def)
next
  case (Inr m)
  with assms have "m = self"
    by (cases "m_build_likelihood cls m (param_tensor feed (data_X m)) (param_tensor feed (data_Y m)) r")
       (simp_all add: construct_def split: if_splits)
  with Inr show ?thesis by simp
qed

text \<open>
  C10: let the two classes be called with the same constructor arguments and let both calls
  return a model. The two models hold the same parameters, and \<open>propagate\<close> and the four
  prediction methods of the \<open>DGP_IWVI\<close> model return, for the same inputs, flags and random
  draws, what those of the \<open>DGP_VI\<close> model return: the results of the bodies written in
  \<open>DGP_VI\<close>. The training objective is the one method in which the classes differ.
\<close>

theorem iwvi_inherits_prediction_and_propagation:
  "construct DGP_VI feed X Y ls lik S mb nm r0 = Inr selfV
   \<and> construct DGP_IWVI feed X Y ls lik S mb nm r0 = Inr selfI
   \<longrightarrow> selfI = selfV
     \<and> m_propagate DGP_IWVI selfI Xn full_cov amort sampled r
         = m_propagate DGP_VI selfV Xn full_cov amort sampled r
     \<and> m_build_predict DGP_IWVI selfI Xnew full_cov r = m_build_predict DGP_VI selfV Xnew full_cov r
     \<and> m_build_predict_decomp DGP_IWVI selfI Xnew full_cov r
         = m_build_predict_decomp DGP_VI selfV Xnew full_cov r
     \<and> m_predict_f_multisample DGP_IWVI selfI Xnew n r = m_predict_f_multisample DGP_VI selfV Xnew n r
     \<and> m_predict_y_samples DGP_IWVI random_normal selfI Xnew n r
         = m_predict_y_samples DGP_VI random_normal selfV Xnew n r
     \<and> m_propagate DGP_VI selfV Xn full_cov amort sampled r = propagate selfV Xn full_cov amort sampled r
     \<and> m_build_predict DGP_VI selfV Xnew full_cov r = build_predict selfV Xnew full_cov r
     \<and> m_build_predict_decomp DGP_VI selfV Xnew full_cov r = build_predict_decomp selfV Xnew full_cov r
     \<and> m_predict_f_multisample DGP_VI selfV Xnew n r = predict_f_multisample selfV Xnew n r
     \<and> m_predict_y_samples DGP_VI random_normal selfV Xnew n r
         = predict_y_samples random_normal selfV Xnew n r
     \<and> m_build_likelihood DGP_VI selfV Xb Yb r = DGP_VI_build_likelihood selfV Xb Yb r
     \<and> m_build_likelihood DGP_IWVI selfI Xb Yb r = DGP_IWVI_build_likelihood selfI Xb Yb r"
proof (intro impI)
  assume A: "construct DGP_VI feed X Y ls lik S mb nm r0 = Inr selfV
   \<and> construct DGP_IWVI feed X Y ls lik S mb nm r0 = Inr selfI"
  then have "m_init DGP_VI X Y ls lik S mb nm = Inr selfV" "m_init DGP_IWVI X Y ls lik S mb nm = Inr selfI"
    by (auto dest: construct_model)
  then have "selfI = selfV"
    by (simp add: DGP_IWVI_def DGP_VI_def)
  then show "selfI = selfV
     \<and> m_propagate DGP_IWVI selfI Xn full_cov amort sampled r
         = m_propagate DGP_VI selfV Xn full_cov amort sampled r
     \<and> m_build_predict DGP_IWVI selfI Xnew full_cov r = m_build_predict DGP_VI selfV Xnew full_cov r
     \<and> m_build_predict_decomp DGP_IWVI selfI Xnew full_cov r
         = m_build_predict_decomp DGP_VI selfV Xnew full_cov r
     \<and> m_predict_f_multisample DGP_IWVI selfI Xnew n r = m_predict_f_multisample DGP_VI selfV Xnew n r
     \<and> m_predict_y_samples DGP_IWVI random_normal selfI Xnew n r
         = m_predict_y_samples DGP_VI random_normal selfV Xnew n r
     \<and> m_propagate DGP_VI selfV Xn full_cov amort sampled r = propagate selfV Xn full_cov amort sampled r
     \<and> m_build_predict DGP_VI selfV Xnew full_cov r = build_predict selfV Xnew full_cov r
     \<and> m_build_predict_decomp DGP_VI selfV Xnew full_cov r = build_predict_decomp selfV Xnew full_cov r
     \<and> m_predict_f_multisample DGP_VI selfV Xnew n r = predict_f_multisample selfV Xnew n r
     \<and> m_predict_y_samples DGP_VI random_normal selfV Xnew n r
         = predict_y_samples random_normal selfV Xnew n r
     \<and> m_build_likelihood DGP_VI selfV Xb Yb r = DGP_VI_build_likelihood selfV Xb Yb r
     \<and> m_build_likelihood DGP_IWVI selfI Xb Yb r = DGP_IWVI_build_likelihood selfI Xb Yb r"
    by (simp add: DGP_IWVI_def DGP_VI_def)
qed


theorem iwvi_inherits_prediction_and_propagation_witness:
  "construct DGP_VI (\<lambda>t b s. t) example_batch example_batch (layers iwvi_example) mean_likelihood
       2 None None 0 = Inr iwvi_example
   \<and> construct DGP_IWVI (\<lambda>t b s. t) example_batch example_batch (layers iwvi_example) mean_likelihood
       2 None None 0 = Inr iwvi_example
   \<and> m_build_predict DGP_IWVI iwvi_example example_batch False 0
       = m_build_predict DGP_VI iwvi_example example_batch False 0
   \<and> m_build_predict DGP_VI iwvi_example example_batch False 0
       = Inr ((Tensor [1, 1] [1], Tensor [1, 2, 1] [0, 2], Tensor [1, 1, 2, 2] [1, 0, 0, 1]), 1)
   \<and> m_build_predict_decomp DGP_IWVI iwvi_example example_batch False 0
       = Inr ((Tensor [1, 1] [1], Tensor [1, 2, 1] [0, 2], [Tensor [1, 1, 2, 2] [1, 0, 0, 1]]), 1)
   \<and> m_predict_f_multisample DGP_IWVI iwvi_example example_batch 2 0
       = m_predict_f_multisample DGP_VI iwvi_example example_batch 2 0
   \<and> m_predict_f_multisample DGP_IWVI iwvi_example example_batch 2 0
       = Inr ((Tensor [1, 2, 1] [0, 2], Tensor [1, 1, 2, 2] [1, 0, 0, 1]), 1)
   \<and> m_predict_y_samples DGP_IWVI ones_normal iwvi_example example_batch 2 0
       = m_predict_y_samples DGP_VI ones_normal iwvi_example example_batch 2 0
   \<and> m_predict_y_samples DGP_IWVI ones_normal iwvi_example example_batch 2 0
       = Inr (Tensor [1, 1, 2, 2] [1, 0, 2, 3], 2)
   \<and> m_build_likelihood DGP_VI iwvi_example example_batch example_batch 0 = Inr (1, 1)
   \<and> m_build_likelihood DGP_IWVI iwvi_example example_batch example_batch 0
       = Inr (ln (exp 0 + exp 2) - ln 2, 1)"
proof -
  have upt2: "[0..<2] = [0, Suc 0]"
    by (simp add: numeral_2_eq_2)
  have two: "{..<2::nat} = {0, 1}" by auto
  have G: "tf_reduce_sum_list [Tensor [] [0]] = Inr (Float64, 0)"
    by code_simp
  have X: "shape0 example_batch = Inr 1"
    by (simp add: shape0_def example_batch_def)
  have K: "num_samples iwvi_example = 2" and nd: "num_data iwvi_example = 1"
    and lik: "likelihood iwvi_example = mean_likelihood"
    by (simp_all add: iwvi_example_def example_model_def)
  have Lv: "DGP_VI_L_S_N iwvi_example example_batch example_batch 0
     = Inr ((Tensor [2, 1] [0, 2], 1, [Tensor [] [0]]), 1)"
    by code_simp
  have vi: "DGP_VI_build_likelihood iwvi_example example_batch example_batch 0 = Inr (1, 1)"
    by (simp add: DGP_VI_L_S_N_stages Lv G K nd tf_reduce_mean_def tf_reduce_axis0 mean_list_def
        tf_reduce_sum_all_def upt2)
  have Li: "DGP_IWVI_L_NK iwvi_example example_batch example_batch 0
     = Inr ((Tensor [1, 2] [0, 2], [Tensor [] [0]]), 1)"
    by code_simp
  have idem: "iwvi_example\<lparr>num_data := 1\<rparr> = iwvi_example"
    by (simp add: iwvi_example_def example_model_def)
  have sh: "shape (Tensor [1, 2] [0, 2]) = [1, num_samples iwvi_example]"
    unfolding K by simp
  have K1: "1 \<le> num_samples iwvi_example" unfolding K by simp
  have val: "(\<Sum>n<(1::nat). ln (\<Sum>k<num_samples iwvi_example. exp (elem (Tensor [1, 2] [0, 2]) [n, k]))
                 - ln (real (num_samples iwvi_example))) * (real 1 / real 1) - 0
             = ln (exp 0 + exp 2) - ln 2"
    unfolding K by (simp add: two elem_def)
  have iw: "DGP_IWVI_build_likelihood iwvi_example example_batch example_batch 0
        = Inr (ln (exp 0 + exp 2) - ln 2, 1)"
    using IWVI_bound_value[OF Li sh X G K1 order_refl, of 1]
    unfolding idem val .
  have init: "DGP_VI_init example_batch example_batch (layers iwvi_example) mean_likelihood 2 None None
       = Inr iwvi_example"
    by (simp add: DGP_VI_init_def iwvi_example_def example_model_def example_batch_def)
  have dx: "param_tensor f (data_X iwvi_example) = example_batch"
           "param_tensor f (data_Y iwvi_example) = example_batch" for f
    by (simp_all add: param_tensor_def iwvi_example_def example_model_def example_batch_def)
  have c1: "construct DGP_VI (\<lambda>t b s. t) example_batch example_batch (layers iwvi_example)
        mean_likelihood 2 None None 0 = Inr iwvi_example"
    by (simp add: construct_def DGP_VI_def init dx vi)
  have c2: "construct DGP_IWVI (\<lambda>t b s. t) example_batch example_batch (layers iwvi_example)
        mean_likelihood 2 None None 0 = Inr iwvi_example"
    by (simp add: construct_def DGP_VI_def DGP_IWVI_def init dx iw)
  have p: "build_predict iwvi_example example_batch False 0
     = Inr ((Tensor [1, 1] [1], Tensor [1, 2, 1] [0, 2], Tensor [1, 1, 2, 2] [1, 0, 0, 1]), 1)"
    by code_simp
  have d: "build_predict_decomp iwvi_example example_batch False 0
     = Inr ((Tensor [1, 1] [1], Tensor [1, 2, 1] [0, 2], [Tensor [1, 1, 2, 2] [1, 0, 0, 1]]), 1)"
    by code_simp
  have q: "predict_f_multisample iwvi_example example_batch 2 0
     = Inr ((Tensor [1, 2, 1] [0, 2], Tensor [1, 1, 2, 2] [1, 0, 0, 1]), 1)"
    by code_simp
  have y: "predict_y_samples ones_normal iwvi_example example_batch 2 0
     = Inr (Tensor [1, 1, 2, 2] [1, 0, 2, 3], 2)"
  proof -
    have s: "map sqrt [1, 0, 0, 1::real] = [1, 0, 0, 1]" by simp
    have P: "propagate iwvi_example (Tensor [2, 1, 1] [0, 0]) False None False 0
       = Inr (([Tensor [2, 1, 1] [1, 1]], [Tensor [1, 2, 1] [0, 2]], [Tensor [1, 1, 2, 2] [1, 0, 0, 1]],
               [Tensor [] [0]], [GLOBAL]), 1)"
      by code_simp
    have n: "ones_normal [1, 2, 1] 1 = (Tensor [1, 2, 1] [1, 1], 2)"
      by code_simp
    have a: "tf_newaxis example_batch 0 2 = Inr (Tensor [1, 1, 1] [0])" by code_simp
    have b: "tf_tile (Tensor [1, 1, 1] [0]) [2, 1, 1] = Inr (Tensor [2, 1, 1] [0, 0])" by code_simp
    have m1: "tf_binop (*) (Tensor [1, 2, 1] [1, 1]) (Tensor [1, 1, 2, 2] [1, 0, 0, 1])
       = Inr (Tensor [1, 1, 2, 2] [1, 0, 0, 1])" by code_simp
    have m2: "tf_binop (+) (Tensor [1, 2, 1] [0, 2]) (Tensor [1, 1, 2, 2] [1, 0, 0, 1])
       = Inr (Tensor [1, 1, 2, 2] [1, 0, 2, 3])" by code_simp
    have pm: "predict_mean_and_var mean_likelihood m v = Inr (m, v)" for m v
      by (simp add: mean_likelihood_def)
    show ?thesis
      apply (simp only: predict_y_samples_def a b P n s m1 m2 lik pm bindE_Inr prod.case last_item_def
          tensor.sel last.simps list.simps if_True if_False refl simp_thms
          real_sqrt_one real_sqrt_zero)
      apply simp
      done
  qed
  note t = iwvi_inherits_prediction_and_propagation
    [where Xnew = example_batch and full_cov = False and r = 0 and n = 2
       and random_normal = ones_normal and Xb = example_batch and Yb = example_batch,
     THEN mp, OF conjI[OF c1 c2]]
  show ?thesis
    using t c1 c2 p d q y vi iw by simp
qed

end
